theory Spec2Isabelle
  imports Main "HOL-Library.Multiset"
begin

section \<open>JavaScript strings and values\<close>

text \<open>
  A JavaScript string is a sequence of UTF-16 code units. A code unit is modelled as a
  natural number (every code unit is below 65536; the theorems below hold for all lists
  of naturals and so for all strings). String literals of the source are written with
  \<open>js\<close>.
\<close>

type_synonym jstr = "nat list"

definition js :: "string \<Rightarrow> jstr" where
  "js s = map of_char s"

text \<open>The class \<open>\s\<close> of regular expressions, which is also what \<open>trim\<close> and
  \<open>parseInt\<close> strip: WhiteSpace and LineTerminator of ECMAScript.\<close>

definition is_space :: "nat \<Rightarrow> bool" where
  "is_space c \<longleftrightarrow>
     (9 \<le> c \<and> c \<le> 13) \<or> c = 32 \<or> c = 160 \<or> c = 5760 \<or> (8192 \<le> c \<and> c \<le> 8202) \<or>
     c = 8232 \<or> c = 8233 \<or> c = 8239 \<or> c = 8287 \<or> c = 12288 \<or> c = 65279"

definition is_digit :: "nat \<Rightarrow> bool" where
  "is_digit c \<longleftrightarrow> 48 \<le> c \<and> c \<le> 57"

text \<open>\<open>String.prototype.trim\<close>.\<close>

definition trim :: "jstr \<Rightarrow> jstr" where
  "trim s = rev (dropWhile is_space (rev (dropWhile is_space s)))"

text \<open>
  A property of an object read by the code: absent (\<open>undefined\<close>), \<open>null\<close>, or a string.
  The records exchanged with the API carry their names, categories and nutrition values
  as strings.
\<close>

datatype field = Absent | Null | Str jstr

text \<open>A value of the record built from the form: a string, a boolean or \<open>null\<close>;
  a key that is not set reads as \<open>undefined\<close>, here \<open>None\<close>.\<close>

datatype jv = JStr jstr | JBool bool | JNull

type_synonym json = "jstr \<rightharpoonup> jv"

text \<open>Truthiness of a property read (\<open>None\<close> is \<open>undefined\<close>).\<close>

fun truthy :: "jv option \<Rightarrow> bool" where
  "truthy None = False"
| "truthy (Some JNull) = False"
| "truthy (Some (JBool b)) = b"
| "truthy (Some (JStr s)) = (s \<noteq> [])"

text \<open>String conversion of a value inside a template literal or a concatenation.\<close>

fun to_string :: "jv option \<Rightarrow> jstr" where
  "to_string None = js ''undefined''"
| "to_string (Some JNull) = js ''null''"
| "to_string (Some (JBool b)) = (if b then js ''true'' else js ''false'')"
| "to_string (Some (JStr s)) = s"

section \<open>Regular expressions of the source\<close>

text \<open>
  The patterns of both views are sequences of single-character classes, each with a
  quantifier, capture-group parentheses that are not nested, and the end anchor. The
  matcher is the backtracking matcher of ECMAScript restricted to these forms: a greedy
  quantifier first tries to take one more character and falls back to the rest of the
  pattern; the first start position with a match wins.
\<close>

datatype cls = Digit | Space | DigitOrDot | Lit nat

datatype quant = One | Opt | Star | Plus

datatype atom = Ch cls quant | GOpen | GClose | Eos

text \<open>Canonicalisation under the \<open>i\<close> flag. The literals of the patterns are ASCII
  letters, and ECMAScript never canonicalises a non-ASCII code unit to an ASCII one,
  so only the ASCII letters need folding.\<close>

definition upcase :: "nat \<Rightarrow> nat" where
  "upcase c = (if 97 \<le> c \<and> c \<le> 122 then c - 32 else c)"

fun cls_mem :: "bool \<Rightarrow> cls \<Rightarrow> nat \<Rightarrow> bool" where
  "cls_mem ic Digit c = is_digit c"
| "cls_mem ic Space c = is_space c"
| "cls_mem ic DigitOrDot c = (is_digit c \<or> c = 46)"
| "cls_mem ic (Lit l) c = (if ic then upcase c = upcase l else c = l)"

text \<open>What a match consumed, with the places where a group opens and closes.\<close>

datatype tok = TCh nat | TOpen | TClose

fun match_at :: "bool \<Rightarrow> atom list \<Rightarrow> jstr \<Rightarrow> (tok list \<times> jstr) option" where
  "match_at ic [] s = Some ([], s)"
| "match_at ic (GOpen # r) s =
     (case match_at ic r s of None \<Rightarrow> None | Some (t, rest) \<Rightarrow> Some (TOpen # t, rest))"
| "match_at ic (GClose # r) s =
     (case match_at ic r s of None \<Rightarrow> None | Some (t, rest) \<Rightarrow> Some (TClose # t, rest))"
| "match_at ic (Eos # r) [] = match_at ic r []"
| "match_at ic (Eos # r) (x # xs) = None"
| "match_at ic (Ch c One # r) [] = None"
| "match_at ic (Ch c One # r) (x # xs) =
     (if cls_mem ic c x
      then (case match_at ic r xs of None \<Rightarrow> None | Some (t, rest) \<Rightarrow> Some (TCh x # t, rest))
      else None)"
| "match_at ic (Ch c Opt # r) [] = match_at ic r []"
| "match_at ic (Ch c Opt # r) (x # xs) =
     (if cls_mem ic c x
      then (case match_at ic r xs of None \<Rightarrow> match_at ic r (x # xs)
            | Some (t, rest) \<Rightarrow> Some (TCh x # t, rest))
      else match_at ic r (x # xs))"
| "match_at ic (Ch c Star # r) [] = match_at ic r []"
| "match_at ic (Ch c Star # r) (x # xs) =
     (if cls_mem ic c x
      then (case match_at ic (Ch c Star # r) xs of None \<Rightarrow> match_at ic r (x # xs)
            | Some (t, rest) \<Rightarrow> Some (TCh x # t, rest))
      else match_at ic r (x # xs))"
| "match_at ic (Ch c Plus # r) [] = None"
| "match_at ic (Ch c Plus # r) (x # xs) =
     (if cls_mem ic c x
      then (case match_at ic (Ch c Star # r) xs of None \<Rightarrow> None
            | Some (t, rest) \<Rightarrow> Some (TCh x # t, rest))
      else None)"

text \<open>The search over start positions, from the left; \<open>pre\<close> is the text already
  passed, reversed. The result is the text before the match, the match and the text
  after it.\<close>

fun search :: "bool \<Rightarrow> atom list \<Rightarrow> jstr \<Rightarrow> jstr \<Rightarrow> (jstr \<times> tok list \<times> jstr) option" where
  "search ic r pre [] =
     (case match_at ic r [] of None \<Rightarrow> None | Some (t, rest) \<Rightarrow> Some (rev pre, t, rest))"
| "search ic r pre (x # xs) =
     (case match_at ic r (x # xs) of
        None \<Rightarrow> search ic r (x # pre) xs
      | Some (t, rest) \<Rightarrow> Some (rev pre, t, rest))"

text \<open>A regular expression literal: its atoms and its \<open>i\<close> flag.\<close>

record regex =
  atoms :: "atom list"
  icase :: bool

text \<open>\<open>str.match(re)\<close> for a pattern without the \<open>g\<close> flag: \<open>None\<close> is \<open>null\<close>.\<close>

definition re_match :: "regex \<Rightarrow> jstr \<Rightarrow> (jstr \<times> tok list \<times> jstr) option" where
  "re_match re s = search (icase re) (atoms re) [] s"

text \<open>\<open>str.replace(re, '')\<close>: the first match is removed, a string without a match
  is returned as it is.\<close>

definition re_remove :: "regex \<Rightarrow> jstr \<Rightarrow> jstr" where
  "re_remove re s = (case re_match re s of None \<Rightarrow> s | Some (pre, t, post) \<Rightarrow> pre @ post)"

text \<open>The captures of a match, in the order of the groups: \<open>match[1]\<close> is \<open>cap t 0\<close>.\<close>

fun group_text :: "tok list \<Rightarrow> jstr" where
  "group_text [] = []"
| "group_text (TCh c # t) = c # group_text t"
| "group_text (TOpen # t) = group_text t"
| "group_text (TClose # t) = []"

fun captures :: "tok list \<Rightarrow> jstr list" where
  "captures [] = []"
| "captures (TOpen # t) = group_text t # captures t"
| "captures (TCh c # t) = captures t"
| "captures (TClose # t) = captures t"

definition cap :: "tok list \<Rightarrow> nat \<Rightarrow> jstr" where
  "cap t n = (if n < length (captures t) then captures t ! n else [])"

definition matched :: "tok list \<Rightarrow> jstr" where
  "matched t = concat (map (\<lambda>k. case k of TCh c \<Rightarrow> [c] | _ \<Rightarrow> []) t)"

text \<open>Building patterns: a literal character and a run of literal characters.\<close>

definition lit :: "char \<Rightarrow> atom" where
  "lit c = Ch (Lit (of_char c)) One"

definition lits :: "string \<Rightarrow> atom list" where
  "lits s = map lit s"

text \<open>The number form \<open>\d+\.?\d*\<close> shared by the patterns of the manager view.\<close>

definition number_atoms :: "atom list" where
  "number_atoms = [Ch Digit Plus, Ch (Lit (of_char CHR ''.'')) Opt, Ch Digit Star]"

section \<open>Manager view: the weight parsing of renderItem\<close>

text \<open>Pattern 1: \<^verbatim>\<open>/(\d+\.?\d*)\s*fl\s*oz\s*cup\s*\(\d+\s*g\)/i\<close>\<close>

definition pattern1 :: regex where
  "pattern1 = \<lparr>atoms = [GOpen] @ number_atoms @ [GClose, Ch Space Star] @ lits ''fl'' @
      [Ch Space Star] @ lits ''oz'' @ [Ch Space Star] @ lits ''cup'' @ [Ch Space Star] @
      [lit CHR ''('', Ch Digit Plus, Ch Space Star, lit CHR ''g'', lit CHR '')''],
    icase = True\<rparr>"

text \<open>Pattern 2: \<^verbatim>\<open>/\((\d+\.?\d*)\s*fl\s*oz\s*cup\)/i\<close>\<close>

definition pattern2 :: regex where
  "pattern2 = \<lparr>atoms = [lit CHR ''('', GOpen] @ number_atoms @ [GClose, Ch Space Star] @
      lits ''fl'' @ [Ch Space Star] @ lits ''oz'' @ [Ch Space Star] @ lits ''cup'' @
      [lit CHR '')''],
    icase = True\<rparr>"

text \<open>Pattern 3: \<^verbatim>\<open>/(\d+\.?\d*)\s*fl\s*oz/i\<close>\<close>

definition pattern3 :: regex where
  "pattern3 = \<lparr>atoms = [GOpen] @ number_atoms @ [GClose, Ch Space Star] @ lits ''fl'' @
      [Ch Space Star] @ lits ''oz'',
    icase = True\<rparr>"

text \<open>Pattern 4: \<^verbatim>\<open>/(\d+\.?\d*)\s*oz\s*\((\d+)\s*g\)/i\<close>\<close>

definition pattern4 :: regex where
  "pattern4 = \<lparr>atoms = [GOpen] @ number_atoms @ [GClose, Ch Space Star] @ lits ''oz'' @
      [Ch Space Star, lit CHR ''('', GOpen, Ch Digit Plus, GClose, Ch Space Star,
       lit CHR ''g'', lit CHR '')''],
    icase = True\<rparr>"

text \<open>Pattern 5: \<^verbatim>\<open>/\d+\s*cookie\s*\((\d+\.?\d*)\s*g\)/i\<close>\<close>

definition pattern5 :: regex where
  "pattern5 = \<lparr>atoms = [Ch Digit Plus, Ch Space Star] @ lits ''cookie'' @
      [Ch Space Star, lit CHR ''('', GOpen] @ number_atoms @
      [GClose, Ch Space Star, lit CHR ''g'', lit CHR '')''],
    icase = True\<rparr>"

text \<open>Pattern 6: \<^verbatim>\<open>/\(?\s*(\d+\.?\d*)\s*g\s*\)?/i\<close>\<close>

definition pattern6 :: regex where
  "pattern6 = \<lparr>atoms = [Ch (Lit (of_char CHR ''('')) Opt, Ch Space Star, GOpen] @ number_atoms @
      [GClose, Ch Space Star, lit CHR ''g'', Ch Space Star, Ch (Lit (of_char CHR '')'')) Opt],
    icase = True\<rparr>"

text \<open>The markup of the extracted quantity:
  \<^verbatim>\<open><div class="weight-info">${q} unit</div>\<close>.\<close>

definition weight_div :: "jstr \<Rightarrow> string \<Rightarrow> jstr" where
  \<open>weight_div q unit = js ''<div class="weight-info">'' @ q @ js '' '' @ js unit @ js ''</div>''\<close>

text \<open>
  The two variables of the parsing, \<open>itemName\<close> and \<open>weightInfo\<close>, are threaded
  through the six blocks of the source as a pair. \<open>!weightInfo\<close> holds when the
  string is empty.
\<close>

type_synonym weight_state = "jstr \<times> jstr"

definition beverage_like :: "jstr \<Rightarrow> bool" where
  "beverage_like category \<longleftrightarrow>
     category = js ''DESSERTSHAKE'' \<or> category = js ''CONDIMENT'' \<or> category = js ''BEVERAGE''"

definition block1 :: "weight_state \<Rightarrow> weight_state" where
  "block1 st = (case st of (itemName, weightInfo) \<Rightarrow>
     (case re_match pattern1 itemName of
        Some (pre, m, post) \<Rightarrow>
          (trim (re_remove pattern1 itemName), weight_div (cap m 0) ''fl oz'')
      | None \<Rightarrow> (itemName, weightInfo)))"

definition block2 :: "weight_state \<Rightarrow> weight_state" where
  "block2 st = (case st of (itemName, weightInfo) \<Rightarrow>
     if weightInfo = [] then
       (case re_match pattern2 itemName of
          Some (pre, m, post) \<Rightarrow>
            (trim (re_remove pattern2 itemName), weight_div (cap m 0) ''fl oz'')
        | None \<Rightarrow> (itemName, weightInfo))
     else (itemName, weightInfo))"

definition block3 :: "weight_state \<Rightarrow> weight_state" where
  "block3 st = (case st of (itemName, weightInfo) \<Rightarrow>
     if weightInfo = [] then
       (case re_match pattern3 itemName of
          Some (pre, m, post) \<Rightarrow>
            (trim (re_remove pattern3 itemName), weight_div (cap m 0) ''fl oz'')
        | None \<Rightarrow> (itemName, weightInfo))
     else (itemName, weightInfo))"

definition block4 :: "jstr \<Rightarrow> weight_state \<Rightarrow> weight_state" where
  "block4 category st = (case st of (itemName, weightInfo) \<Rightarrow>
     if weightInfo = [] then
       (case re_match pattern4 itemName of
          Some (pre, m, post) \<Rightarrow>
            (trim (re_remove pattern4 itemName),
             if beverage_like category then weight_div (cap m 0) ''oz''
             else weight_div (cap m 1) ''g'')
        | None \<Rightarrow> (itemName, weightInfo))
     else (itemName, weightInfo))"

definition block5 :: "weight_state \<Rightarrow> weight_state" where
  "block5 st = (case st of (itemName, weightInfo) \<Rightarrow>
     if weightInfo = [] then
       (case re_match pattern5 itemName of
          Some (pre, m, post) \<Rightarrow>
            (trim (re_remove pattern5 itemName), weight_div (cap m 0) ''g'')
        | None \<Rightarrow> (itemName, weightInfo))
     else (itemName, weightInfo))"

definition block6 :: "jstr \<Rightarrow> weight_state \<Rightarrow> weight_state" where
  "block6 category st = (case st of (itemName, weightInfo) \<Rightarrow>
     if weightInfo = [] \<and> \<not> beverage_like category then
       (case re_match pattern6 itemName of
          Some (pre, m, post) \<Rightarrow>
            (trim (re_remove pattern6 itemName), weight_div (cap m 0) ''g'')
        | None \<Rightarrow> (itemName, weightInfo))
     else (itemName, weightInfo))"

text \<open>\<open>item.ITEM || 'Unnamed Item'\<close> and \<open>item.CATEGORY || ''\<close>.\<close>

fun or_default :: "field \<Rightarrow> jstr \<Rightarrow> jstr" where
  "or_default (Str s) d = (if s = [] then d else s)"
| "or_default Absent d = d"
| "or_default Null d = d"

text \<open>The weight parsing of \<open>renderItem\<close>: from the name and the category of the
  item to the name and the quantity markup that the card shows.\<close>

definition parseWeight :: "field \<Rightarrow> field \<Rightarrow> weight_state" where
  "parseWeight item_ITEM item_CATEGORY =
     (let itemName = or_default item_ITEM (js ''Unnamed Item'');
          category = or_default item_CATEGORY [] in
      block6 category (block5 (block4 category (block3 (block2 (block1 (itemName, [])))))))"

section \<open>Menu items\<close>

text \<open>The record exchanged with the API. No field is guaranteed to be there.\<close>

record item =
  item_id :: field
  ITEM :: field
  CATEGORY :: field
  CAL :: field
  FAT :: field
  SFAT :: field
  TFAT :: field
  CHOL :: field
  SALT :: field
  CARB :: field
  FBR :: field
  SGR :: field
  PRO :: field

text \<open>A property of an item inside a template literal or as a property key.\<close>

fun field_string :: "field \<Rightarrow> jstr" where
  "field_string Absent = js ''undefined''"
| "field_string Null = js ''null''"
| "field_string (Str s) = s"

text \<open>The errors that the modelled code can throw.\<close>

datatype error = TypeError | RangeError | SyntaxError | InvalidCharacterError

text \<open>
  The names that every object literal inherits from \<open>Object.prototype\<close>. Reading one of
  them from an object that has no own property of that name gives a function (or, for
  \<open>__proto__\<close>, the prototype object): a truthy value that is neither a string nor an
  array.
\<close>

definition inherited_names :: "jstr list" where
  "inherited_names = map js
     [''constructor'', ''__defineGetter__'', ''__defineSetter__'', ''hasOwnProperty'',
      ''__lookupGetter__'', ''__lookupSetter__'', ''isPrototypeOf'', ''propertyIsEnumerable'',
      ''toString'', ''valueOf'', ''__proto__'', ''toLocaleString'']"

definition inherited :: "jstr \<Rightarrow> bool" where
  "inherited k \<longleftrightarrow> k \<in> set inherited_names"

section \<open>Public view: the weight parsing of displayCategoryItems\<close>

text \<open>The patterns of the public view have no flag. Each is written twice in the
  source, with groups for \<open>match\<close> and without groups for \<open>replace\<close>.\<close>

text \<open>\<^verbatim>\<open>/\s*([\d.]+)\s*oz\s*\((\d+)\s*g\)\s*$/\<close> and
  \<^verbatim>\<open>/\s*[\d.]+\s*oz\s*\(\d+\s*g\)\s*$/\<close>\<close>

definition oz_grams_re :: regex where
  "oz_grams_re = \<lparr>atoms = [Ch Space Star, GOpen, Ch DigitOrDot Plus, GClose, Ch Space Star] @
      lits ''oz'' @ [Ch Space Star, lit CHR ''('', GOpen, Ch Digit Plus, GClose, Ch Space Star,
      lit CHR ''g'', lit CHR '')'', Ch Space Star, Eos],
    icase = False\<rparr>"

definition oz_grams_rm :: regex where
  "oz_grams_rm = \<lparr>atoms = [Ch Space Star, Ch DigitOrDot Plus, Ch Space Star] @
      lits ''oz'' @ [Ch Space Star, lit CHR ''('', Ch Digit Plus, Ch Space Star,
      lit CHR ''g'', lit CHR '')'', Ch Space Star, Eos],
    icase = False\<rparr>"

text \<open>\<^verbatim>\<open>/\s*\((\d+)\s*g\)\s*$/\<close> and \<^verbatim>\<open>/\s*\(\d+\s*g\)\s*$/\<close>\<close>

definition paren_grams_re :: regex where
  "paren_grams_re = \<lparr>atoms = [Ch Space Star, lit CHR ''('', GOpen, Ch Digit Plus, GClose,
      Ch Space Star, lit CHR ''g'', lit CHR '')'', Ch Space Star, Eos],
    icase = False\<rparr>"

definition paren_grams_rm :: regex where
  "paren_grams_rm = \<lparr>atoms = [Ch Space Star, lit CHR ''('', Ch Digit Plus,
      Ch Space Star, lit CHR ''g'', lit CHR '')'', Ch Space Star, Eos],
    icase = False\<rparr>"

text \<open>\<^verbatim>\<open>/\s+(\d+)\s*g\s*$/\<close> and \<^verbatim>\<open>/\s+\d+\s*g\s*$/\<close>\<close>

definition bare_grams_re :: regex where
  "bare_grams_re = \<lparr>atoms = [Ch Space Plus, GOpen, Ch Digit Plus, GClose,
      Ch Space Star, lit CHR ''g'', Ch Space Star, Eos],
    icase = False\<rparr>"

definition bare_grams_rm :: regex where
  "bare_grams_rm = \<lparr>atoms = [Ch Space Plus, Ch Digit Plus,
      Ch Space Star, lit CHR ''g'', Ch Space Star, Eos],
    icase = False\<rparr>"

text \<open>\<^verbatim>\<open>/\s*\(([\d.]+)\s*oz\)\s*$/\<close> and \<^verbatim>\<open>/\s*\([\d.]+\s*oz\)\s*$/\<close>\<close>

definition paren_oz_re :: regex where
  "paren_oz_re = \<lparr>atoms = [Ch Space Star, lit CHR ''('', GOpen, Ch DigitOrDot Plus, GClose,
      Ch Space Star] @ lits ''oz'' @ [lit CHR '')'', Ch Space Star, Eos],
    icase = False\<rparr>"

definition paren_oz_rm :: regex where
  "paren_oz_rm = \<lparr>atoms = [Ch Space Star, lit CHR ''('', Ch DigitOrDot Plus,
      Ch Space Star] @ lits ''oz'' @ [lit CHR '')'', Ch Space Star, Eos],
    icase = False\<rparr>"

text \<open>\<^verbatim>\<open>/\s+([\d.]+)\s*oz\s*$/\<close> and \<^verbatim>\<open>/\s+[\d.]+\s*oz\s*$/\<close>\<close>

definition bare_oz_re :: regex where
  "bare_oz_re = \<lparr>atoms = [Ch Space Plus, GOpen, Ch DigitOrDot Plus, GClose,
      Ch Space Star] @ lits ''oz'' @ [Ch Space Star, Eos],
    icase = False\<rparr>"

definition bare_oz_rm :: regex where
  "bare_oz_rm = \<lparr>atoms = [Ch Space Plus, Ch DigitOrDot Plus,
      Ch Space Star] @ lits ''oz'' @ [Ch Space Star, Eos],
    icase = False\<rparr>"

text \<open>The three variables of the parsing.\<close>

record weight =
  cleanedName :: jstr
  grams :: jstr
  ounces :: jstr

text \<open>Formats 2 and 3 of the source, tried when format 1 did not match.\<close>

definition grams_only :: "jstr \<Rightarrow> weight" where
  "grams_only itemText =
     (case re_match paren_grams_re itemText of
        Some (pre, m, post) \<Rightarrow>
          \<lparr>cleanedName = re_remove paren_grams_rm itemText, grams = cap m 0, ounces = []\<rparr>
      | None \<Rightarrow>
          (case re_match bare_grams_re itemText of
             Some (pre, m, post) \<Rightarrow>
               \<lparr>cleanedName = re_remove bare_grams_rm itemText, grams = cap m 0, ounces = []\<rparr>
           | None \<Rightarrow> \<lparr>cleanedName = itemText, grams = [], ounces = []\<rparr>))"

text \<open>Formats 4 and 5, tried when no grams were found (\<open>!grams\<close>).\<close>

definition ounces_only :: "jstr \<Rightarrow> weight \<Rightarrow> weight" where
  "ounces_only itemText w =
     (if grams w = [] then
        (case re_match paren_oz_re itemText of
           Some (pre, m, post) \<Rightarrow>
             w\<lparr>ounces := cap m 0, cleanedName := re_remove paren_oz_rm itemText\<rparr>
         | None \<Rightarrow>
             (case re_match bare_oz_re itemText of
                Some (pre, m, post) \<Rightarrow>
                  w\<lparr>ounces := cap m 0, cleanedName := re_remove bare_oz_rm itemText\<rparr>
              | None \<Rightarrow> w))
      else w)"

definition extractWeight :: "jstr \<Rightarrow> weight" where
  "extractWeight itemText =
     (case re_match oz_grams_re itemText of
        Some (pre, m, post) \<Rightarrow>
          \<lparr>cleanedName = re_remove oz_grams_rm itemText, grams = cap m 1, ounces = cap m 0\<rparr>
      | None \<Rightarrow> ounces_only itemText (grams_only itemText))"

section \<open>Public view: nutritional highlights\<close>

text \<open>
  \<open>parseInt(x)\<close> with no radix: leading white space is skipped, a sign is read, a
  prefix \<open>0x\<close> selects radix 16, and the longest run of digits is the value; \<open>None\<close>
  is \<open>NaN\<close>. The value is kept as an integer: the code only compares it with the
  thresholds 20, 5, 10 and 400, and the rounding of large values to a double is
  monotone and leaves these comparisons as they are.
\<close>

definition digit_value :: "nat \<Rightarrow> nat \<Rightarrow> nat option" where
  "digit_value radix c =
     (let v = (if 48 \<le> c \<and> c \<le> 57 then Some (c - 48)
               else if 97 \<le> c \<and> c \<le> 122 then Some (c - 87)
               else if 65 \<le> c \<and> c \<le> 90 then Some (c - 55)
               else None)
      in case v of None \<Rightarrow> None | Some d \<Rightarrow> if d < radix then Some d else None)"

definition digits_value :: "nat \<Rightarrow> jstr \<Rightarrow> int" where
  "digits_value radix z = foldl (\<lambda>a c. a * int radix + int (the (digit_value radix c))) 0 z"

definition parse_digits :: "nat \<Rightarrow> jstr \<Rightarrow> int option" where
  "parse_digits radix s =
     (let z = takeWhile (\<lambda>c. digit_value radix c \<noteq> None) s
      in if z = [] then None else Some (digits_value radix z))"

definition parse_unsigned :: "jstr \<Rightarrow> int option" where
  "parse_unsigned s =
     (case s of
        a # b # rest \<Rightarrow>
          if a = 48 \<and> (b = 120 \<or> b = 88) then parse_digits 16 rest else parse_digits 10 s
      | _ \<Rightarrow> parse_digits 10 s)"

definition parseInt_string :: "jstr \<Rightarrow> int option" where
  "parseInt_string input =
     (case dropWhile is_space input of
        [] \<Rightarrow> None
      | c # rest \<Rightarrow>
          if c = 45 then map_option uminus (parse_unsigned rest)
          else if c = 43 then parse_unsigned rest
          else parse_unsigned (c # rest))"

definition parseInt :: "field \<Rightarrow> int option" where
  "parseInt x = parseInt_string (field_string x)"

text \<open>\<open>parseInt(x) || 0\<close>: \<open>NaN\<close> and zero both give zero.\<close>

definition metric :: "field \<Rightarrow> int" where
  "metric x = (case parseInt x of None \<Rightarrow> 0 | Some v \<Rightarrow> v)"

text \<open>Decimal text of a number in a template literal. It is the text of the code for
  every value below \<open>2^53\<close> in size, where the double is the integer; a larger value
  is printed by the code rounded to a double, and from \<open>10^21\<close> on with an exponent.
  The theorems use of this text only that it is not empty.\<close>

function show_nat :: "nat \<Rightarrow> jstr" where
  "show_nat n = (if n < 10 then [48 + n] else show_nat (n div 10) @ [48 + n mod 10])"
  by pat_completeness auto
termination
  by (relation "measure id") auto

declare show_nat.simps [simp del]

definition show_int :: "int \<Rightarrow> jstr" where
  "show_int i = (if i < 0 then 45 # show_nat (nat (- i)) else show_nat (nat i))"

definition highlight_span :: "int \<Rightarrow> string \<Rightarrow> jstr" where
  \<open>highlight_span v label =
     js ''<span class="nutritional-highlight">'' @ show_int v @ js label @ js ''</span>''\<close>

text \<open>The active filter is \<open>null\<close> by default; \<open>!activeFilter\<close> also holds for the
  empty string.\<close>

definition getNutritionalHighlight :: "item \<Rightarrow> field \<Rightarrow> jstr" where
  "getNutritionalHighlight it activeFilter =
     (case activeFilter of
        Absent \<Rightarrow> []
      | Null \<Rightarrow> []
      | Str f \<Rightarrow>
          if f = [] then []
          else
            (let protein = metric (PRO it);
                 fiber = metric (FBR it);
                 carbs = metric (CARB it);
                 sugar = metric (SGR it);
                 calories = metric (CAL it)
             in if f = js ''high-protein'' then
                  (if protein \<ge> 20 then highlight_span protein ''g protein'' else [])
                else if f = js ''gut-friendly'' then
                  (if fiber \<ge> 5 then highlight_span fiber ''g fiber'' else [])
                else if f = js ''low-carb'' then
                  (if carbs \<le> 20 then highlight_span carbs ''g carbs'' else [])
                else if f = js ''low-sugar'' then
                  (if sugar \<le> 10 then highlight_span sugar ''g sugar'' else [])
                else if f = js ''calorie-conscious'' then
                  (if calories \<le> 400 then highlight_span calories '' cal'' else [])
                else []))"

section \<open>Public view: listings\<close>

text \<open>\<open>toLowerCase\<close>, for the code units below 256: the capital letters of ASCII and
  of Latin-1 (192 to 222 without the multiplication sign 215) are moved by 32. The
  cased letters of the other blocks of Unicode are kept as they are; the text that
  the theorems lower is used only as a class name and as a search term.\<close>

definition lower :: "nat \<Rightarrow> nat" where
  "lower c =
     (if 65 \<le> c \<and> c \<le> 90 then c + 32
      else if 192 \<le> c \<and> c \<le> 222 \<and> c \<noteq> 215 then c + 32
      else c)"

definition toLowerCase :: "jstr \<Rightarrow> jstr" where
  "toLowerCase s = map lower s"

text \<open>The labels of the known categories; an unknown name has a space put before each
  capital letter. (For a name that objects inherit the lookup gives the inherited
  function; \<open>createListings\<close> makes no button or section of such a name.) The label
  of MCCAFE ends, in the source file, with the two characters of code 195 and 169.\<close>

definition categoryMap :: "(jstr \<times> jstr) list" where
  "categoryMap =
     [(js ''BURGERSANDWICH'', js ''Burgers & Sandwiches''),
      (js ''CHICKENFISH'', js ''Chicken & Fish''),
      (js ''BREAKFAST'', js ''Breakfast''),
      (js ''SALAD'', js ''Salads''),
      (js ''SNACKSIDE'', js ''Snacks & Sides''),
      (js ''BEVERAGE'', js ''Beverages''),
      (js ''MCCAFE'', js ''McCaf'' @ [195, 169]),
      (js ''DESSERTSHAKE'', js ''Desserts & Shakes''),
      (js ''CONDIMENT'', js ''Condiments''),
      (js ''ALLDAYBREAKFAST'', js ''All Day Breakfast'')]"

definition formatCategoryName :: "jstr \<Rightarrow> jstr" where
  "formatCategoryName categoryName =
     (case map_of categoryMap categoryName of
        Some label \<Rightarrow> label
      | None \<Rightarrow> trim (concat (map (\<lambda>c. if 65 \<le> c \<and> c \<le> 90 then [32, c] else [c]) categoryName)))"

text \<open>One listing: the parts of the template that depend on the item.\<close>

record listing =
  popoverId :: jstr
  item_name :: jstr
  grams_span :: jstr
  ounces_span :: jstr
  nutritionalHighlight :: jstr

text \<open>One item of the loop of \<open>displayCategoryItems\<close>. \<open>item.ITEM.match\<close> throws
  when the item has no name.\<close>

definition display_item :: "jstr \<Rightarrow> field \<Rightarrow> nat \<Rightarrow> item \<Rightarrow> error + listing" where
  \<open>display_item categoryName activeFilter index it =
     (let highlight = getNutritionalHighlight it activeFilter in
      case ITEM it of
        Str itemText \<Rightarrow>
          (let w = extractWeight itemText in
           Inr \<lparr>popoverId = categoryName @ js ''-'' @ show_nat index,
                item_name = cleanedName w,
                grams_span = (if grams w \<noteq> []
                              then js ''<span class="item-grams">'' @ grams w @ js ''g</span>''
                              else []),
                ounces_span = (if ounces w \<noteq> [] \<and> grams w = []
                               then js ''<span class="item-ounces">'' @ ounces w @ js ''oz</span>''
                               else []),
                nutritionalHighlight = highlight\<rparr>)
      | _ \<Rightarrow> Inl TypeError)\<close>

fun display_items :: "jstr \<Rightarrow> field \<Rightarrow> nat \<Rightarrow> item list \<Rightarrow> error + listing list" where
  "display_items categoryName activeFilter index [] = Inr []"
| "display_items categoryName activeFilter index (it # its) =
     (case display_item categoryName activeFilter index it of
        Inl e \<Rightarrow> Inl e
      | Inr l \<Rightarrow>
          (case display_items categoryName activeFilter (Suc index) its of
             Inl e \<Rightarrow> Inl e
           | Inr ls \<Rightarrow> Inr (l # ls)))"

text \<open>A rendered section. \<open>classList.add\<close> throws on an empty token and on a token
  with ASCII white space.\<close>

record section_view =
  section_category :: jstr
  section_class :: jstr
  section_header :: jstr
  section_count :: jstr
  section_items :: "item list"
  section_listings :: "listing list"

definition ascii_space :: "nat \<Rightarrow> bool" where
  "ascii_space c \<longleftrightarrow> c = 9 \<or> c = 10 \<or> c = 12 \<or> c = 13 \<or> c = 32"

definition classList_add :: "jstr \<Rightarrow> error + jstr" where
  "classList_add token =
     (if token = [] then Inl SyntaxError
      else if list_ex ascii_space token then Inl InvalidCharacterError
      else Inr token)"

definition displayCategoryItems :: "jstr \<Rightarrow> item list \<Rightarrow> field \<Rightarrow> error + section_view" where
  "displayCategoryItems categoryName items activeFilter =
     (case classList_add (toLowerCase categoryName) of
        Inl e \<Rightarrow> Inl e
      | Inr cl \<Rightarrow>
          (case display_items categoryName activeFilter 0 items of
             Inl e \<Rightarrow> Inl e
           | Inr ls \<Rightarrow>
               Inr \<lparr>section_category = categoryName,
                    section_class = cl,
                    section_header = formatCategoryName categoryName,
                    section_count = js ''Found '' @ show_nat (length items) @ js '' items'',
                    section_items = items,
                    section_listings = ls\<rparr>))"

section \<open>Public view: createListings\<close>

text \<open>
  The object \<open>categories\<close> is a list of own properties in the order of their creation.
  \<open>push_item\<close> is \<open>categories[category].push(item)\<close>, after the bucket was created
  when the key was new.
\<close>

type_synonym buckets = "(jstr \<times> item list) list"

fun push_item :: "jstr \<Rightarrow> item \<Rightarrow> buckets \<Rightarrow> buckets" where
  "push_item k it [] = [(k, [it])]"
| "push_item k it ((k', b) # cs) =
     (if k' = k then (k', b @ [it]) # cs else (k', b) # push_item k it cs)"

text \<open>
  The grouping loop. When the key is new, \<open>categories[category]\<close> is \<open>undefined\<close> and the
  bucket is created, unless the key names a property inherited from \<open>Object.prototype\<close>:
  then the read is truthy, no bucket is created, and \<open>push\<close> is not a function.
\<close>

fun group_items :: "buckets \<Rightarrow> item list \<Rightarrow> error + buckets" where
  "group_items categories [] = Inr categories"
| "group_items categories (it # its) =
     (let category = field_string (CATEGORY it) in
      if map_of categories category = None \<and> inherited category then Inl TypeError
      else group_items (push_item category it categories) its)"

text \<open>
  The order in which \<open>Object.keys\<close> and \<open>Object.entries\<close> list the own properties: the
  array indices (canonical numerals below \<open>2^32 - 1\<close>) in ascending order, then the
  other keys in the order of their creation.
\<close>

definition array_index :: "jstr \<Rightarrow> nat option" where
  "array_index k =
     (if k \<noteq> [] \<and> list_all is_digit k \<and> (k = [48] \<or> hd k \<noteq> 48) \<and>
         nat (digits_value 10 k) < 2 ^ 32 - 1
      then Some (nat (digits_value 10 k)) else None)"

definition own_entries :: "buckets \<Rightarrow> buckets" where
  "own_entries cs =
     sort_key (\<lambda>e. the (array_index (fst e))) (filter (\<lambda>e. array_index (fst e) \<noteq> None) cs) @
     filter (\<lambda>e. array_index (fst e) = None) cs"

text \<open>The category buttons of \<open>createFilterButtons\<close>, after the button "Show All": the
  key kept in \<open>dataset.category\<close> and the label.\<close>

definition createFilterButtons :: "buckets \<Rightarrow> (jstr \<times> jstr) list" where
  "createFilterButtons categories =
     map (\<lambda>e. (fst e, formatCategoryName (fst e)))
       (filter (\<lambda>e. length (snd e) > 0) (own_entries categories))"

text \<open>The sections are rendered one after the other; an exception ends the loop and
  leaves the sections rendered before it.\<close>

fun render_sections :: "buckets \<Rightarrow> section_view list \<times> error option" where
  "render_sections [] = ([], None)"
| "render_sections ((categoryName, items) # cs) =
     (case displayCategoryItems categoryName items Null of
        Inl e \<Rightarrow> ([], Some e)
      | Inr sec \<Rightarrow> (case render_sections cs of (secs, e) \<Rightarrow> (sec # secs, e)))"

record page =
  filter_buttons :: "(jstr \<times> jstr) list"
  menuCategories :: buckets
  allMenuItems :: "item list"
  sections :: "section_view list"

definition empty_page :: page where
  "empty_page = \<lparr>filter_buttons = [], menuCategories = [], allMenuItems = [], sections = []\<rparr>"

text \<open>\<open>createListings\<close> on a fresh page: the page it leaves and the exception that
  ended it, if any.\<close>

definition createListings :: "item list \<Rightarrow> page \<times> error option" where
  "createListings menuItems =
     (case group_items [] menuItems of
        Inl e \<Rightarrow> (empty_page, Some e)
      | Inr categories \<Rightarrow>
          (case render_sections (filter (\<lambda>e. length (snd e) > 0) (own_entries categories)) of
             (secs, e) \<Rightarrow>
               (\<lparr>filter_buttons = createFilterButtons categories,
                 menuCategories = categories,
                 allMenuItems = menuItems,
                 sections = secs\<rparr>, e)))"

section \<open>Manager view: state and requests\<close>

datatype http_method = GET | POST | PUT | DELETE

record request =
  req_method :: http_method
  req_endpoint :: jstr
  req_body :: "json option"

text \<open>
  What \<open>fetch\<close> gives back: the promise rejects, or it resolves to a response with
  its \<open>ok\<close> flag, its status text and what \<open>response.json()\<close> gives.
\<close>

datatype 'b outcome = Rejected | Responded bool jstr 'b

text \<open>The body of the answer to a save or a delete, as \<open>response.json()\<close> reads it:
  not JSON (the promise rejects), \<open>null\<close>, or an object. A JSON value of another
  kind has none of the properties read by the code and behaves as the empty object.\<close>

datatype body = Unparsable | NullBody | ObjBody json

text \<open>A rendered card of the manager view.\<close>

record card =
  card_id :: jstr
  card_category :: jstr
  card_name :: jstr
  card_weight :: jstr
  card_rows :: "(string \<times> jstr) list"

datatype content = Html jstr | Cards "card list"

text \<open>
  The state of the manager page: the variable \<open>allItems\<close>, the parts of the document
  that the code writes, the values of the two filter controls, the alerts and toasts
  shown and the requests issued so far, the confirmation dialog and the click listeners
  on its two buttons. A listener added by \<open>deleteItem\<close> is a closure: it is known by the
  number of the call that made it and, for the confirm button, carries the id.
\<close>

record manager =
  allItems :: "item list"
  contentArea :: content
  createButtonHidden :: bool
  searchInput :: jstr
  categoryFilter :: jstr
  alerts :: "jstr list"
  toasts :: "jstr list"
  requests :: "request list"
  modalShown :: bool
  confirmListeners :: "(nat \<times> field) list"
  cancelListeners :: "nat list"
  nextListener :: nat

definition alert :: "jstr \<Rightarrow> manager \<Rightarrow> manager" where
  "alert message s = s\<lparr>alerts := alerts s @ [message]\<rparr>"

definition showToast :: "jstr \<Rightarrow> manager \<Rightarrow> manager" where
  "showToast message s = s\<lparr>toasts := toasts s @ [message]\<rparr>"

definition fetch :: "http_method \<Rightarrow> jstr \<Rightarrow> json option \<Rightarrow> manager \<Rightarrow> manager" where
  "fetch m endpoint b s =
     s\<lparr>requests := requests s @ [\<lparr>req_method = m, req_endpoint = endpoint, req_body = b\<rparr>]\<rparr>"

section \<open>Manager view: renderItem and filterAndDisplayItems\<close>

definition field_truthy :: "field \<Rightarrow> bool" where
  "field_truthy f = (case f of Str s \<Rightarrow> s \<noteq> [] | _ \<Rightarrow> False)"

definition nutrition_row :: "string \<Rightarrow> field \<Rightarrow> string \<Rightarrow> (string \<times> jstr) list" where
  "nutrition_row label f unit =
     (if field_truthy f then [(label, field_string f @ js unit)] else [])"

definition renderItem :: "item \<Rightarrow> card" where
  "renderItem it =
     (case parseWeight (ITEM it) (CATEGORY it) of
        (itemName, weightInfo) \<Rightarrow>
          \<lparr>card_id = field_string (item_id it),
           card_category = or_default (CATEGORY it) (js ''N/A''),
           card_name = itemName,
           card_weight = weightInfo,
           card_rows =
             nutrition_row ''Calories:'' (CAL it) [] @
             nutrition_row ''Total Fat:'' (FAT it) ''g'' @
             nutrition_row ''Saturated Fat:'' (SFAT it) ''g'' @
             nutrition_row ''Trans Fat:'' (TFAT it) ''g'' @
             nutrition_row ''Cholesterol:'' (CHOL it) ''mg'' @
             nutrition_row ''Sodium:'' (SALT it) ''mg'' @
             nutrition_row ''Carbohydrates:'' (CARB it) ''g'' @
             nutrition_row ''Fiber:'' (FBR it) ''g'' @
             nutrition_row ''Sugar:'' (SGR it) ''g'' @
             nutrition_row ''Protein:'' (PRO it) ''g''\<rparr>)"

fun starts_with :: "jstr \<Rightarrow> jstr \<Rightarrow> bool" where
  "starts_with s [] = True"
| "starts_with [] (y # ys) = False"
| "starts_with (x # xs) (y # ys) = (x = y \<and> starts_with xs ys)"

fun includes_str :: "jstr \<Rightarrow> jstr \<Rightarrow> bool" where
  "includes_str [] t = (t = [])"
| "includes_str (x # xs) t = (starts_with (x # xs) t \<or> includes_str xs t)"

definition matches_filter :: "jstr \<Rightarrow> jstr \<Rightarrow> item \<Rightarrow> bool" where
  "matches_filter searchTerm selectedCategory it =
     (let matchesSearch =
            (searchTerm = [] \<or>
             (case ITEM it of
                Str name \<Rightarrow> name \<noteq> [] \<and> includes_str (toLowerCase name) searchTerm
              | _ \<Rightarrow> False));
          matchesCategory = (selectedCategory = [] \<or> CATEGORY it = Str selectedCategory)
      in matchesSearch \<and> matchesCategory)"

definition filterAndDisplayItems :: "manager \<Rightarrow> manager" where
  \<open>filterAndDisplayItems s =
     (let searchTerm = trim (toLowerCase (searchInput s));
          selectedCategory = categoryFilter s;
          filteredItems = filter (matches_filter searchTerm selectedCategory) (allItems s)
      in if length filteredItems = 0
         then s\<lparr>contentArea := Html (js ''<p><i>No items match your search.</i></p>'')\<rparr>
         else s\<lparr>contentArea := Cards (map renderItem filteredItems)\<rparr>)\<close>

section \<open>Manager view: getData\<close>

text \<open>The answer to the list request is an array of items, or not JSON.\<close>

definition getData :: "manager \<Rightarrow> item list option outcome \<Rightarrow> manager" where
  \<open>getData s0 answer =
     (let s = fetch GET (js ''/data'') None s0 in
      case answer of
        Rejected \<Rightarrow> s\<lparr>contentArea := Html (js ''<p>Error loading menu items.</p>'')\<rparr>
      | Responded ok statusText b \<Rightarrow>
          if ok then
            (case b of
               None \<Rightarrow> s\<lparr>contentArea := Html (js ''<p>Error loading menu items.</p>'')\<rparr>
             | Some data \<Rightarrow>
                 if length data = 0
                 then s\<lparr>contentArea := Html (js ''<p><i>No data found in the database.</i></p>'')\<rparr>
                 else filterAndDisplayItems (s\<lparr>allItems := data\<rparr>))
          else
            s\<lparr>createButtonHidden := True,
              contentArea := Html (js ''<p>Could not connect to the database.</p>'')\<rparr>)\<close>

section \<open>Manager view: saveItem\<close>

text \<open>
  \<open>saveItem\<close> with the answer to its request and the answer to the list request that
  a successful save starts.
\<close>

definition save_endpoint :: "json \<Rightarrow> jstr" where
  "save_endpoint data =
     (if truthy (data (js ''id'')) then js ''/data/'' @ to_string (data (js ''id''))
      else js ''/data'')"

definition save_method :: "json \<Rightarrow> http_method" where
  "save_method data = (if truthy (data (js ''id'')) then PUT else POST)"

definition saveItem :: "manager \<Rightarrow> json \<Rightarrow> body outcome \<Rightarrow> item list option outcome \<Rightarrow> manager" where
  "saveItem s0 data answer refresh =
     (let endpoint = save_endpoint data;
          m = save_method data;
          s = fetch m endpoint (Some data) s0
      in case answer of
           Rejected \<Rightarrow> alert (js ''An error occurred while saving'') s
         | Responded ok statusText b \<Rightarrow>
             if \<not> ok then
               (case b of
                  ObjBody errorData \<Rightarrow>
                    (let errorMessage =
                           (if truthy (errorData (js ''details'')) then to_string (errorData (js ''details''))
                            else if truthy (errorData (js ''error'')) then to_string (errorData (js ''error''))
                            else statusText)
                     in alert (js ''Failed to save: '' @ errorMessage) s)
                | _ \<Rightarrow> alert (js ''Failed to save: '' @ statusText) s)
             else
               (case b of
                  Unparsable \<Rightarrow> alert (js ''An error occurred while saving'') s
                | _ \<Rightarrow> getData (showToast (js ''Menu item saved successfully!'') s) refresh))"

section \<open>Manager view: deleteItem\<close>

text \<open>\<open>deleteItem\<close> shows the dialog and adds one listener to each button.\<close>

definition deleteItem :: "field \<Rightarrow> manager \<Rightarrow> manager" where
  "deleteItem item_id' s =
     s\<lparr>modalShown := True,
       confirmListeners := confirmListeners s @ [(nextListener s, item_id')],
       cancelListeners := cancelListeners s @ [nextListener s],
       nextListener := Suc (nextListener s)\<rparr>"

text \<open>Both handlers first hide the dialog and remove the two listeners of their call.\<close>

definition remove_listeners :: "nat \<Rightarrow> manager \<Rightarrow> manager" where
  "remove_listeners k s =
     s\<lparr>modalShown := False,
       confirmListeners := filter (\<lambda>l. fst l \<noteq> k) (confirmListeners s),
       cancelListeners := filter (\<lambda>k'. k' \<noteq> k) (cancelListeners s)\<rparr>"

text \<open>\<open>handleConfirm\<close> up to its first \<open>await\<close>: the request is issued.\<close>

definition handleConfirm :: "nat \<Rightarrow> field \<Rightarrow> manager \<Rightarrow> manager" where
  "handleConfirm k item_id' s =
     fetch DELETE (js ''/data/'' @ field_string item_id') None (remove_listeners k s)"

definition handleCancel :: "nat \<Rightarrow> manager \<Rightarrow> manager" where
  "handleCancel k s = remove_listeners k s"

text \<open>\<open>handleConfirm\<close> after the answer has come.\<close>

definition delete_answered :: "manager \<Rightarrow> body outcome \<Rightarrow> item list option outcome \<Rightarrow> manager" where
  "delete_answered s answer refresh =
     (case answer of
        Rejected \<Rightarrow> alert (js ''An error occurred while deleting'') s
      | Responded ok statusText b \<Rightarrow>
          (case b of
             Unparsable \<Rightarrow> alert (js ''An error occurred while deleting'') s
           | NullBody \<Rightarrow>
               if ok then getData (showToast (js ''Item deleted successfully'') s) refresh
               else alert (js ''An error occurred while deleting'') s
           | ObjBody errorData \<Rightarrow>
               if ok then getData (showToast (js ''Item deleted successfully'') s) refresh
               else alert (if truthy (errorData (js ''error'')) then to_string (errorData (js ''error''))
                           else js ''Failed to delete item'') s))"

text \<open>
  A click runs the listeners that the button had when the click came, in the order in
  which they were added, each one only if it is still there when its turn comes.
\<close>

definition click_confirm :: "manager \<Rightarrow> manager" where
  "click_confirm s =
     fold (\<lambda>l st. if l \<in> set (confirmListeners st) then handleConfirm (fst l) (snd l) st else st)
       (confirmListeners s) s"

definition click_cancel :: "manager \<Rightarrow> manager" where
  "click_cancel s =
     fold (\<lambda>k st. if k \<in> set (cancelListeners st) then handleCancel k st else st)
       (cancelListeners s) s"

text \<open>The actions on the dialog, and the run of a sequence of them.\<close>

datatype action = DeleteItem field | ClickConfirm | ClickCancel

fun step :: "action \<Rightarrow> manager \<Rightarrow> manager" where
  "step (DeleteItem item_id') s = deleteItem item_id' s"
| "step ClickConfirm s = click_confirm s"
| "step ClickCancel s = click_cancel s"

definition run :: "action list \<Rightarrow> manager \<Rightarrow> manager" where
  "run as s = fold step as s"

definition initial :: manager where
  "initial = \<lparr>allItems = [], contentArea = Html [], createButtonHidden = False,
     searchInput = [], categoryFilter = [], alerts = [], toasts = [], requests = [],
     modalShown = False, confirmListeners = [], cancelListeners = [], nextListener = 0\<rparr>"

section \<open>Manager view: getFormData\<close>












section \<open>Measures on patterns\<close>

text \<open>The number of characters that every match of a pattern consumes at least.\<close>

fun mandatory :: "atom list \<Rightarrow> nat" where
  "mandatory [] = 0"
| "mandatory (Ch c One # r) = Suc (mandatory r)"
| "mandatory (Ch c Plus # r) = Suc (mandatory r)"
| "mandatory (a # r) = mandatory r"





section \<open>Invariants of the proofs\<close>

text \<open>The state of the parsing of the manager view for a name \<open>x\<close>: nothing found and
  the name still \<open>x\<close>, or a quantity found and the name shorter.\<close>

definition progress :: "jstr \<Rightarrow> weight_state \<Rightarrow> bool" where
  "progress x st \<longleftrightarrow>
     (snd st = [] \<and> fst st = x) \<or> (snd st \<noteq> [] \<and> length (fst st) < length x)"

text \<open>The invariant of the dialog: the listeners of the two buttons come in pairs
  with fresh numbers.\<close>

definition paired :: "manager \<Rightarrow> bool" where
  "paired s \<longleftrightarrow>
     distinct (cancelListeners s) \<and> map fst (confirmListeners s) = cancelListeners s \<and>
     list_all (\<lambda>k. k < nextListener s) (cancelListeners s)"

text \<open>The request of \<open>handleConfirm\<close>.\<close>

definition delete_request :: "field \<Rightarrow> request" where
  "delete_request i =
     \<lparr>req_method = DELETE, req_endpoint = js ''/data/'' @ field_string i, req_body = None\<rparr>"




text \<open>The key under which \<open>createListings\<close> files an item, and the state of the grouping
  after the items \<open>seen\<close>: every key that occurred has the bucket of its items, in
  their order.\<close>

definition category_key :: "item \<Rightarrow> jstr" where
  "category_key it = field_string (CATEGORY it)"

definition grouped :: "item list \<Rightarrow> buckets \<Rightarrow> bool" where
  "grouped seen cs \<longleftrightarrow>
     distinct (map fst cs) \<and>
     (\<forall>k. map_of cs k =
        (if k \<in> category_key ` set seen then Some (filter (\<lambda>it. category_key it = k) seen)
         else None))"

section \<open>Names and the patterns they hold\<close>





text \<open>A match of the pattern begins at one of the positions of \<open>pre\<close> in the text
  \<open>pre @ rest\<close>. The search of \<open>match\<close> and \<open>replace\<close> takes the first position at
  which a match begins.\<close>

fun begins_within :: "regex \<Rightarrow> jstr \<Rightarrow> jstr \<Rightarrow> bool" where
  "begins_within re [] rest = False"
| "begins_within re (x # pre) rest \<longleftrightarrow>
     match_at (icase re) (atoms re) (x # pre @ rest) \<noteq> None \<or> begins_within re pre rest"


section \<open>Example data\<close>

definition example_burger :: item where
  "example_burger =
     \<lparr>item_id = Str (js ''42''), ITEM = Str (js ''Burger 8.9 oz (251 g)''),
      CATEGORY = Str (js ''BURGERSANDWICH''),
      CAL = Str (js ''550''), FAT = Absent, SFAT = Absent, TFAT = Absent, CHOL = Absent,
      SALT = Absent, CARB = Str (js ''19''), FBR = Null, SGR = Str (js ''n/a''),
      PRO = Str (js ''25'')\<rparr>"

definition example_cola :: item where
  "example_cola =
     \<lparr>item_id = Str (js ''7''), ITEM = Str (js ''Cola 12 fl oz cup''),
      CATEGORY = Str (js ''BEVERAGE''),
      CAL = Str (js ''140''), FAT = Absent, SFAT = Absent, TFAT = Absent, CHOL = Absent,
      SALT = Absent, CARB = Str (js ''39''), FBR = Absent, SGR = Str (js ''39''),
      PRO = Str (js ''0'')\<rparr>"

definition example_shake :: item where
  "example_shake =
     \<lparr>item_id = Str (js ''9''), ITEM = Str (js ''Shake 8.9 oz (251 g)''),
      CATEGORY = Str (js ''DESSERTSHAKE''),
      CAL = Str (js ''530''), FAT = Absent, SFAT = Absent, TFAT = Absent, CHOL = Absent,
      SALT = Absent, CARB = Absent, FBR = Absent, SGR = Absent, PRO = Absent\<rparr>"

definition example_menu :: "item list" where
  "example_menu = [example_burger, example_cola, example_shake, example_cola]"

definition example_record :: json where
  "example_record = [js ''id'' \<mapsto> JStr (js ''42''), js ''ITEM'' \<mapsto> JStr (js ''Fries'')]"

definition example_new_record :: json where
  "example_new_record = [js ''id'' \<mapsto> JStr [], js ''ITEM'' \<mapsto> JStr (js ''Fries'')]"



section \<open>Evaluation of literals\<close>

lemma js_Nil [simp]: "js [] = []"
  by (simp add: js_def)

lemma js_Cons: "js (c # cs) = of_char c # js cs"
  by (simp add: js_def)

section \<open>Nutritional highlights\<close>

lemma highlight_span_nonempty: "highlight_span v l \<noteq> []"
  by (simp add: highlight_span_def js_Cons)

lemma filter_names_distinct:
  "js ''high-protein'' \<noteq> js ''gut-friendly''" "js ''high-protein'' \<noteq> js ''low-carb''"
  "js ''high-protein'' \<noteq> js ''low-sugar''" "js ''high-protein'' \<noteq> js ''calorie-conscious''"
  "js ''gut-friendly'' \<noteq> js ''low-carb''" "js ''gut-friendly'' \<noteq> js ''low-sugar''"
  "js ''gut-friendly'' \<noteq> js ''calorie-conscious''" "js ''low-carb'' \<noteq> js ''low-sugar''"
  "js ''low-carb'' \<noteq> js ''calorie-conscious''" "js ''low-sugar'' \<noteq> js ''calorie-conscious''"
  "js ''high-protein'' \<noteq> []" "js ''gut-friendly'' \<noteq> []" "js ''low-carb'' \<noteq> []"
  "js ''low-sugar'' \<noteq> []" "js ''calorie-conscious'' \<noteq> []"
  by (simp_all add: js_def)

lemma metric_examples:
  "metric (Str (js ''25'')) = 25" "metric (Str (js ''19'')) = 19" "metric (Str (js '' 7.5g'')) = 7"
  "metric (Str (js ''n/a'')) = 0" "metric Absent = 0" "metric Null = 0" "metric (Str (js ''0x1F'')) = 31"
  "metric (Str (js ''-3'')) = - 3"
  by (simp_all add: metric_def parseInt_def parseInt_string_def parse_unsigned_def parse_digits_def
      digits_value_def digit_value_def is_space_def js_def)

lemma display_item_highlight:
  "display_item categoryName activeFilter index it = Inr l \<Longrightarrow>
   nutritionalHighlight l = getNutritionalHighlight it activeFilter"
  by (auto simp: display_item_def Let_def split: field.splits)

text \<open>
  C5. For every item, the highlight for an active filter is produced (the returned markup
  is not empty) exactly when the parsed metric of that filter crosses its threshold:
  protein at least 20 for "high-protein", fiber at least 5 for "gut-friendly", carbs at
  most 20 for "low-carb", sugar at most 10 for "low-sugar", calories at most 400 for
  "calorie-conscious". With no active filter (\<open>null\<close>, \<open>undefined\<close> or the empty string)
  no highlight is produced.
\<close>

theorem highlight_iff_threshold:
  "(getNutritionalHighlight it (Str (js ''high-protein'')) \<noteq> [] \<longleftrightarrow> metric (PRO it) \<ge> 20) \<and>
   (getNutritionalHighlight it (Str (js ''gut-friendly'')) \<noteq> [] \<longleftrightarrow> metric (FBR it) \<ge> 5) \<and>
   (getNutritionalHighlight it (Str (js ''low-carb'')) \<noteq> [] \<longleftrightarrow> metric (CARB it) \<le> 20) \<and>
   (getNutritionalHighlight it (Str (js ''low-sugar'')) \<noteq> [] \<longleftrightarrow> metric (SGR it) \<le> 10) \<and>
   (getNutritionalHighlight it (Str (js ''calorie-conscious'')) \<noteq> [] \<longleftrightarrow> metric (CAL it) \<le> 400) \<and>
   getNutritionalHighlight it Null = [] \<and>
   getNutritionalHighlight it Absent = [] \<and>
   getNutritionalHighlight it (Str []) = []"
  by (simp add: getNutritionalHighlight_def Let_def filter_names_distinct
      filter_names_distinct[symmetric] highlight_span_nonempty)

lemma highlight_examples:
  \<open>getNutritionalHighlight example_burger (Str (js ''high-protein'')) =
     js ''<span class="nutritional-highlight">25g protein</span>''\<close>
  \<open>getNutritionalHighlight example_burger (Str (js ''low-carb'')) =
     js ''<span class="nutritional-highlight">19g carbs</span>''\<close>
  \<open>getNutritionalHighlight example_burger (Str (js ''low-sugar'')) =
     js ''<span class="nutritional-highlight">0g sugar</span>''\<close>
  \<open>getNutritionalHighlight example_burger (Str (js ''calorie-conscious'')) = []\<close>
  \<open>getNutritionalHighlight example_burger (Str (js ''vegan'')) = []\<close>
proof -
  have m: "metric (PRO example_burger) = 25" "metric (CARB example_burger) = 19"
    "metric (SGR example_burger) = 0" "metric (CAL example_burger) = 550"
    by (simp_all add: example_burger_def metric_def parseInt_def parseInt_string_def
        parse_unsigned_def parse_digits_def digits_value_def digit_value_def is_space_def js_def)
  have n: "show_int 25 = js ''25''" "show_int 19 = js ''19''" "show_int 0 = js ''0''"
    by (simp_all add: show_int_def show_nat.simps js_def)
  have f: "js ''vegan'' \<noteq> []" "js ''vegan'' \<noteq> js ''high-protein''"
    "js ''vegan'' \<noteq> js ''gut-friendly''" "js ''vegan'' \<noteq> js ''low-carb''"
    "js ''vegan'' \<noteq> js ''low-sugar''" "js ''vegan'' \<noteq> js ''calorie-conscious''"
    by (simp_all add: js_def)
  show \<open>getNutritionalHighlight example_burger (Str (js ''high-protein'')) =
     js ''<span class="nutritional-highlight">25g protein</span>''\<close>
    by (simp add: getNutritionalHighlight_def Let_def filter_names_distinct m highlight_span_def n)
      (simp add: js_def)
  show \<open>getNutritionalHighlight example_burger (Str (js ''low-carb'')) =
     js ''<span class="nutritional-highlight">19g carbs</span>''\<close>
    by (simp add: getNutritionalHighlight_def Let_def filter_names_distinct
        filter_names_distinct [symmetric] m highlight_span_def n)
      (simp add: js_def)
  show \<open>getNutritionalHighlight example_burger (Str (js ''low-sugar'')) =
     js ''<span class="nutritional-highlight">0g sugar</span>''\<close>
    by (simp add: getNutritionalHighlight_def Let_def filter_names_distinct
        filter_names_distinct [symmetric] m highlight_span_def n)
      (simp add: js_def)
  show \<open>getNutritionalHighlight example_burger (Str (js ''calorie-conscious'')) = []\<close>
    by (simp add: getNutritionalHighlight_def Let_def filter_names_distinct
        filter_names_distinct [symmetric] m)
  show \<open>getNutritionalHighlight example_burger (Str (js ''vegan'')) = []\<close>
    by (simp add: getNutritionalHighlight_def Let_def f)
qed

theorem highlight_iff_threshold_witness:
  "getNutritionalHighlight example_burger (Str (js ''high-protein'')) \<noteq> [] \<and>
   getNutritionalHighlight example_burger (Str (js ''gut-friendly'')) = []"
proof -
  have "metric (PRO example_burger) \<ge> 20" "\<not> metric (FBR example_burger) \<ge> 5"
    by (simp_all add: example_burger_def metric_examples)
  with highlight_iff_threshold [of example_burger] show ?thesis
    by blast
qed

section \<open>The manager view: requests and the list in memory\<close>

lemma filterAndDisplayItems_keeps:
  "allItems (filterAndDisplayItems s) = allItems s"
  "requests (filterAndDisplayItems s) = requests s"
  "alerts (filterAndDisplayItems s) = alerts s"
  "toasts (filterAndDisplayItems s) = toasts s"
  by (simp_all add: filterAndDisplayItems_def Let_def)

lemma getData_requests:
  "requests (getData s answer) =
     requests s @ [\<lparr>req_method = GET, req_endpoint = js ''/data'', req_body = None\<rparr>]"
  by (simp add: getData_def fetch_def Let_def filterAndDisplayItems_keeps
      split: outcome.splits option.splits)

lemma getData_alerts_toasts:
  "alerts (getData s answer) = alerts s" "toasts (getData s answer) = toasts s"
  by (simp_all add: getData_def fetch_def Let_def filterAndDisplayItems_keeps
      split: outcome.splits option.splits)

lemma getData_nonempty:
  "data \<noteq> [] \<Longrightarrow> allItems (getData s (Responded True statusText (Some data))) = data"
  by (simp add: getData_def fetch_def Let_def filterAndDisplayItems_keeps)

lemma getData_empty:
  "allItems (getData s (Responded True statusText (Some []))) = allItems s"
  "contentArea (getData s (Responded True statusText (Some []))) =
     Html (js ''<p><i>No data found in the database.</i></p>'')"
  by (simp_all add: getData_def fetch_def Let_def)

text \<open>Whether the answer to a save starts the refresh of the list.\<close>

lemma saveItem_requests:
  "requests (saveItem s data answer refresh) =
     requests s @
     [\<lparr>req_method = save_method data, req_endpoint = save_endpoint data, req_body = Some data\<rparr>] @
     (case answer of
        Responded ok statusText b \<Rightarrow>
          if ok \<and> b \<noteq> Unparsable
          then [\<lparr>req_method = GET, req_endpoint = js ''/data'', req_body = None\<rparr>] else []
      | Rejected \<Rightarrow> [])"
  by (simp add: saveItem_def Let_def fetch_def alert_def showToast_def getData_requests
      split: outcome.splits body.splits)

text \<open>
  C3. \<open>saveItem\<close> routes on the identifier of the record. A record that carries an id (a
  non-empty string, as the hidden field of the form gives it for an existing item) is
  sent with PUT to \<open>/data/{id}\<close>; a record without an id (no \<open>id\<close> property, \<open>null\<close>, or
  the blank hidden field of a new item) is sent with POST to \<open>/data\<close>. The request is
  issued whatever the answer will be, and the only other request that can follow is the
  GET of the refresh.
\<close>

theorem saveItem_routing:
  "(data (js ''id'') = Some (JStr i) \<and> i \<noteq> [] \<longrightarrow>
      (\<exists>rest. requests (saveItem s data answer refresh) =
         requests s @
         \<lparr>req_method = PUT, req_endpoint = js ''/data/'' @ i, req_body = Some data\<rparr> # rest \<and>
         list_all (\<lambda>r. req_method r = GET) rest)) \<and>
   (data (js ''id'') = None \<or> data (js ''id'') = Some JNull \<or> data (js ''id'') = Some (JStr []) \<longrightarrow>
      (\<exists>rest. requests (saveItem s data answer refresh) =
         requests s @
         \<lparr>req_method = POST, req_endpoint = js ''/data'', req_body = Some data\<rparr> # rest \<and>
         list_all (\<lambda>r. req_method r = GET) rest))"
  by (auto simp: saveItem_requests save_method_def save_endpoint_def
      split: outcome.splits)

theorem saveItem_routing_witness:
  "requests (saveItem initial example_record Rejected Rejected) =
     [\<lparr>req_method = PUT, req_endpoint = js ''/data/42'', req_body = Some example_record\<rparr>] \<and>
   requests (saveItem initial example_new_record Rejected Rejected) =
     [\<lparr>req_method = POST, req_endpoint = js ''/data'', req_body = Some example_new_record\<rparr>]"
proof -
  have a: "example_record (js ''id'') = Some (JStr (js ''42'')) \<and> js ''42'' \<noteq> []"
    by (simp add: example_record_def js_def)
  have b: "example_new_record (js ''id'') = Some (JStr [])"
    by (simp add: example_new_record_def js_def)
  have r: "requests (saveItem initial d Rejected Rejected) = requests initial @ [q]"
    if "\<exists>rest. requests (saveItem initial d Rejected Rejected) = requests initial @ q # rest \<and>
          list_all (\<lambda>r. req_method r = GET) rest" for d q
    using that by (auto simp: saveItem_requests)
  have i: "requests initial = []" by (simp add: initial_def)
  from saveItem_routing [of example_record "js ''42''" initial Rejected Rejected] a
  have "\<exists>rest. requests (saveItem initial example_record Rejected Rejected) =
      requests initial @ \<lparr>req_method = PUT, req_endpoint = js ''/data/'' @ js ''42'',
        req_body = Some example_record\<rparr> # rest \<and> list_all (\<lambda>r. req_method r = GET) rest"
    by blast
  from r [OF this] have 1: "requests (saveItem initial example_record Rejected Rejected) =
     [\<lparr>req_method = PUT, req_endpoint = js ''/data/42'', req_body = Some example_record\<rparr>]"
    by (simp add: i js_def)
  from saveItem_routing [of example_new_record "[]" initial Rejected Rejected] b
  have "\<exists>rest. requests (saveItem initial example_new_record Rejected Rejected) =
      requests initial @ \<lparr>req_method = POST, req_endpoint = js ''/data'',
        req_body = Some example_new_record\<rparr> # rest \<and> list_all (\<lambda>r. req_method r = GET) rest"
    by blast
  from r [OF this] have 2: "requests (saveItem initial example_new_record Rejected Rejected) =
     [\<lparr>req_method = POST, req_endpoint = js ''/data'', req_body = Some example_new_record\<rparr>]"
    by (simp add: i)
  from 1 2 show ?thesis by simp
qed

text \<open>
  C8, as the code has it. A response that is not ok gives one alert, "Failed to save: "
  followed by the \<open>details\<close> field of the error body, else its \<open>error\<close> field, else
  the status text (also when the body is not a JSON object). A rejected request gives
  the generic alert, and so does an ok response whose body is not JSON. In these cases
  no list request is issued (the only request is the save itself), no toast is shown,
  and \<open>allItems\<close> and the content area are as before. An ok response with a JSON
  body gives the toast and then runs \<open>getData\<close>, which issues the list request and
  replaces \<open>allItems\<close> by a non-empty list it gets.
\<close>

theorem saveItem_outcomes:
  "(let s' = saveItem s data (Responded False statusText (ObjBody errorData)) refresh in
      alerts s' = alerts s @
        [js ''Failed to save: '' @
           (if truthy (errorData (js ''details'')) then to_string (errorData (js ''details''))
            else if truthy (errorData (js ''error'')) then to_string (errorData (js ''error''))
            else statusText)] \<and>
      requests s' = requests s @
        [\<lparr>req_method = save_method data, req_endpoint = save_endpoint data, req_body = Some data\<rparr>] \<and>
      toasts s' = toasts s \<and> allItems s' = allItems s \<and> contentArea s' = contentArea s) \<and>
   (b = Unparsable \<or> b = NullBody \<longrightarrow>
    (let s' = saveItem s data (Responded False statusText b) refresh in
      alerts s' = alerts s @ [js ''Failed to save: '' @ statusText] \<and>
      requests s' = requests s @
        [\<lparr>req_method = save_method data, req_endpoint = save_endpoint data, req_body = Some data\<rparr>] \<and>
      toasts s' = toasts s \<and> allItems s' = allItems s \<and> contentArea s' = contentArea s)) \<and>
   (let s' = saveItem s data Rejected refresh in
      alerts s' = alerts s @ [js ''An error occurred while saving''] \<and>
      requests s' = requests s @
        [\<lparr>req_method = save_method data, req_endpoint = save_endpoint data, req_body = Some data\<rparr>] \<and>
      toasts s' = toasts s \<and> allItems s' = allItems s \<and> contentArea s' = contentArea s) \<and>
   (let s' = saveItem s data (Responded True statusText Unparsable) refresh in
      alerts s' = alerts s @ [js ''An error occurred while saving''] \<and>
      requests s' = requests s @
        [\<lparr>req_method = save_method data, req_endpoint = save_endpoint data, req_body = Some data\<rparr>] \<and>
      toasts s' = toasts s \<and> allItems s' = allItems s \<and> contentArea s' = contentArea s) \<and>
   (b' \<noteq> Unparsable \<longrightarrow>
    (let s' = saveItem s data (Responded True statusText b') refresh in
      toasts s' = toasts s @ [js ''Menu item saved successfully!''] \<and>
      alerts s' = alerts s \<and>
      requests s' = requests s @
        [\<lparr>req_method = save_method data, req_endpoint = save_endpoint data, req_body = Some data\<rparr>,
         \<lparr>req_method = GET, req_endpoint = js ''/data'', req_body = None\<rparr>] \<and>
      (\<forall>st items. refresh = Responded True st (Some items) \<and> items \<noteq> [] \<longrightarrow> allItems s' = items)))"
  by (auto simp: saveItem_def Let_def fetch_def alert_def showToast_def getData_requests
      getData_alerts_toasts getData_nonempty split: body.splits)

theorem saveItem_outcomes_witness:
  "alerts (saveItem initial example_record
      (Responded False (js ''Bad Request'') (ObjBody [js ''error'' \<mapsto> JStr (js ''ITEM is required'')]))
      Rejected) = [js ''Failed to save: ITEM is required''] \<and>
   alerts (saveItem initial example_record (Responded False (js ''Bad Request'') Unparsable) Rejected) =
     [js ''Failed to save: Bad Request''] \<and>
   alerts (saveItem initial example_record Rejected Rejected) = [js ''An error occurred while saving''] \<and>
   allItems (saveItem initial example_record Rejected Rejected) = [] \<and>
   toasts (saveItem initial example_record (Responded True (js ''OK'') NullBody)
      (Responded True (js ''OK'') (Some [example_burger]))) = [js ''Menu item saved successfully!''] \<and>
   allItems (saveItem initial example_record (Responded True (js ''OK'') NullBody)
      (Responded True (js ''OK'') (Some [example_burger]))) = [example_burger]"
proof -
  have e: "\<not> truthy ([js ''error'' \<mapsto> JStr (js ''ITEM is required'')] (js ''details''))"
     "truthy ([js ''error'' \<mapsto> JStr (js ''ITEM is required'')] (js ''error''))"
     "to_string ([js ''error'' \<mapsto> JStr (js ''ITEM is required'')] (js ''error'')) = js ''ITEM is required''"
    by (simp_all add: js_def)
  have i: "alerts initial = []" "toasts initial = []" "allItems initial = []"
    by (simp_all add: initial_def)
  from saveItem_outcomes [of initial example_record "js ''Bad Request''"
      "[js ''error'' \<mapsto> JStr (js ''ITEM is required'')]" Rejected Unparsable NullBody]
    saveItem_outcomes [of initial example_record "js ''OK''"
      "[js ''error'' \<mapsto> JStr (js ''ITEM is required'')]" "Responded True (js ''OK'') (Some [example_burger])"
      Unparsable NullBody]
  show ?thesis
    by (simp add: Let_def e i js_def)
qed

text \<open>
  C8 as stated fails for a response that is ok but whose body is not JSON (an empty
  body, for one): \<open>response.json()\<close> rejects, the outer \<open>catch\<close> shows the generic
  alert, and neither the toast nor the refresh happens.
\<close>

theorem saveItem_ok_without_json:
  "toasts (saveItem initial example_record (Responded True (js ''OK'') Unparsable)
      (Responded True (js ''OK'') (Some [example_burger]))) = [] \<and>
   alerts (saveItem initial example_record (Responded True (js ''OK'') Unparsable)
      (Responded True (js ''OK'') (Some [example_burger]))) = [js ''An error occurred while saving''] \<and>
   requests (saveItem initial example_record (Responded True (js ''OK'') Unparsable)
      (Responded True (js ''OK'') (Some [example_burger]))) =
     [\<lparr>req_method = PUT, req_endpoint = js ''/data/42'', req_body = Some example_record\<rparr>] \<and>
   allItems (saveItem initial example_record (Responded True (js ''OK'') Unparsable)
      (Responded True (js ''OK'') (Some [example_burger]))) = []"
proof -
  have i: "truthy (example_record (js ''id''))"
    "to_string (example_record (js ''id'')) = js ''42''"
    by (simp_all add: example_record_def js_def)
  have e: "js ''/data/'' @ js ''42'' = js ''/data/42''"
    by (simp add: js_def)
  show ?thesis
    by (simp add: saveItem_def Let_def fetch_def alert_def initial_def save_endpoint_def
        save_method_def i e)
qed

text \<open>
  C6. With items in memory, a fetch that succeeds with the empty array shows the "no
  data" message and returns before \<open>allItems\<close> is assigned: the list in memory keeps
  the items of the fetch before, and the next filtering shows them again.
\<close>

theorem getData_empty_keeps_stale_list:
  "allItems (getData (initial\<lparr>allItems := [example_burger]\<rparr>) (Responded True (js ''OK'') (Some []))) =
     [example_burger] \<and>
   contentArea (getData (initial\<lparr>allItems := [example_burger]\<rparr>) (Responded True (js ''OK'') (Some []))) =
     Html (js ''<p><i>No data found in the database.</i></p>'') \<and>
   contentArea (filterAndDisplayItems
       (getData (initial\<lparr>allItems := [example_burger]\<rparr>) (Responded True (js ''OK'') (Some [])))) =
     Cards [renderItem example_burger]"
  by (simp add: getData_def fetch_def Let_def filterAndDisplayItems_def initial_def
      matches_filter_def toLowerCase_def trim_def)
section \<open>The manager view: deletion\<close>

lemma fold_handleConfirm:
  "distinct (map fst ls) \<Longrightarrow> confirmListeners st = ls \<Longrightarrow>
   requests (fold (\<lambda>l st. if l \<in> set (confirmListeners st) then handleConfirm (fst l) (snd l) st else st) ls st) =
     requests st @ map (\<lambda>l. delete_request (snd l)) ls \<and>
   confirmListeners (fold (\<lambda>l st. if l \<in> set (confirmListeners st) then handleConfirm (fst l) (snd l) st else st) ls st) = [] \<and>
   cancelListeners (fold (\<lambda>l st. if l \<in> set (confirmListeners st) then handleConfirm (fst l) (snd l) st else st) ls st) =
     filter (\<lambda>k. k \<notin> fst ` set ls) (cancelListeners st)"
proof (induction ls arbitrary: st)
  case Nil
  then show ?case by simp
next
  case (Cons l ls)
  let ?st = "handleConfirm (fst l) (snd l) st"
  have keep: "filter (\<lambda>l'. fst l' \<noteq> fst l) ls = ls"
  proof -
    from Cons.prems(1) have "fst l \<notin> fst ` set ls" by simp
    then have "\<forall>l' \<in> set ls. fst l' \<noteq> fst l" by (simp add: image_iff) metis
    then show ?thesis by (simp add: filter_id_conv)
  qed
  have c: "confirmListeners ?st = ls"
    using Cons.prems(2) keep by (simp add: handleConfirm_def fetch_def remove_listeners_def)
  have r: "requests ?st = requests st @ [delete_request (snd l)]"
    by (simp add: handleConfirm_def fetch_def remove_listeners_def delete_request_def)
  have k: "cancelListeners ?st = filter (\<lambda>k. k \<noteq> fst l) (cancelListeners st)"
    by (simp add: handleConfirm_def fetch_def remove_listeners_def)
  from Cons.prems(1) have d: "distinct (map fst ls)" by simp
  note ih = Cons.IH [OF d c]
  have mem: "l \<in> set (confirmListeners st)" using Cons.prems(2) by simp
  show ?case
    using ih mem by (simp add: r k conj_commute)
qed

lemma fold_handleCancel:
  "distinct ks \<Longrightarrow> cancelListeners st = ks \<Longrightarrow>
   requests (fold (\<lambda>k st. if k \<in> set (cancelListeners st) then handleCancel k st else st) ks st) = requests st \<and>
   cancelListeners (fold (\<lambda>k st. if k \<in> set (cancelListeners st) then handleCancel k st else st) ks st) = [] \<and>
   confirmListeners (fold (\<lambda>k st. if k \<in> set (cancelListeners st) then handleCancel k st else st) ks st) =
     filter (\<lambda>l. fst l \<notin> set ks) (confirmListeners st)"
proof (induction ks arbitrary: st)
  case Nil
  then show ?case by simp
next
  case (Cons k ks)
  let ?st = "handleCancel k st"
  have keep: "filter (\<lambda>k'. k' \<noteq> k) ks = ks"
    using Cons.prems(1) by (auto simp: filter_id_conv)
  have c: "cancelListeners ?st = ks"
    using Cons.prems(2) keep by (simp add: handleCancel_def remove_listeners_def)
  have r: "requests ?st = requests st"
    by (simp add: handleCancel_def remove_listeners_def)
  have l: "confirmListeners ?st = filter (\<lambda>l. fst l \<noteq> k) (confirmListeners st)"
    by (simp add: handleCancel_def remove_listeners_def)
  from Cons.prems(1) have d: "distinct ks" by simp
  note ih = Cons.IH [OF d c]
  have mem: "k \<in> set (cancelListeners st)" using Cons.prems(2) by simp
  show ?case
    using ih mem by (simp add: r l conj_commute)
qed

lemma click_confirm_paired:
  assumes "paired s"
  shows "requests (click_confirm s) = requests s @ map (\<lambda>l. delete_request (snd l)) (confirmListeners s)"
    and "confirmListeners (click_confirm s) = []"
    and "cancelListeners (click_confirm s) = []"
    and "nextListener (click_confirm s) = nextListener s"
proof -
  from assms have d: "distinct (map fst (confirmListeners s))"
    and m: "map fst (confirmListeners s) = cancelListeners s"
    by (simp_all add: paired_def)
  note f = fold_handleConfirm [OF d refl, folded click_confirm_def]
  show "requests (click_confirm s) = requests s @ map (\<lambda>l. delete_request (snd l)) (confirmListeners s)"
    using f by simp
  show "confirmListeners (click_confirm s) = []" using f by simp
  have "cancelListeners (click_confirm s) =
      filter (\<lambda>k. k \<notin> fst ` set (confirmListeners s)) (cancelListeners s)"
    using f by simp
  also have "\<dots> = []"
    using m by (metis (mono_tags, lifting) filter_False list.set_map)
  finally show "cancelListeners (click_confirm s) = []" .
  have "\<And>st. nextListener (fold (\<lambda>l st. if l \<in> set (confirmListeners st) then handleConfirm (fst l) (snd l) st else st) ls st) = nextListener st" for ls
    by (induction ls) (simp_all add: handleConfirm_def fetch_def remove_listeners_def)
  then show "nextListener (click_confirm s) = nextListener s"
    by (simp add: click_confirm_def)
qed

lemma click_cancel_paired:
  assumes "paired s"
  shows "requests (click_cancel s) = requests s"
    and "confirmListeners (click_cancel s) = []"
    and "cancelListeners (click_cancel s) = []"
    and "nextListener (click_cancel s) = nextListener s"
proof -
  from assms have d: "distinct (cancelListeners s)"
    and m: "map fst (confirmListeners s) = cancelListeners s"
    by (simp_all add: paired_def)
  note f = fold_handleCancel [OF d refl, folded click_cancel_def]
  show "requests (click_cancel s) = requests s" using f by simp
  show "cancelListeners (click_cancel s) = []" using f by simp
  have "confirmListeners (click_cancel s) =
      filter (\<lambda>l. fst l \<notin> set (cancelListeners s)) (confirmListeners s)"
    using f by simp
  also have "\<dots> = []"
    using m by (metis (mono_tags, lifting) filter_False image_eqI list.set_map)
  finally show "confirmListeners (click_cancel s) = []" .
  have "\<And>st. nextListener (fold (\<lambda>k st. if k \<in> set (cancelListeners st) then handleCancel k st else st) ks st) = nextListener st" for ks
    by (induction ks) (simp_all add: handleCancel_def remove_listeners_def)
  then show "nextListener (click_cancel s) = nextListener s"
    by (simp add: click_cancel_def)
qed

lemma paired_initial: "paired initial"
  by (simp add: paired_def initial_def)

lemma paired_step: "paired s \<Longrightarrow> paired (step a s)"
proof (cases a)
  case (DeleteItem i)
  assume "paired s"
  then show ?thesis
    unfolding DeleteItem
    by (auto simp: paired_def deleteItem_def list_all_iff less_Suc_eq)
next
  case ClickConfirm
  assume "paired s"
  then show ?thesis
    unfolding ClickConfirm by (simp add: paired_def click_confirm_paired)
next
  case ClickCancel
  assume "paired s"
  then show ?thesis
    unfolding ClickCancel by (simp add: paired_def click_cancel_paired)
qed

lemma run_snoc: "run (acts @ [a]) s = step a (run acts s)"
  by (simp add: run_def)

lemma paired_run: "paired (run acts initial)"
  by (induction acts rule: rev_induct) (simp_all add: run_snoc paired_step paired_initial run_def)

text \<open>Every request that a run has issued is the DELETE of an id whose deletion was
  asked for and confirmed, and every pending listener carries an id that was asked for.\<close>

lemma run_requests:
  "(\<forall>r \<in> set (requests (run acts initial)).
      \<exists>i. DeleteItem i \<in> set acts \<and> ClickConfirm \<in> set acts \<and> r = delete_request i) \<and>
   (\<forall>l \<in> set (confirmListeners (run acts initial)). DeleteItem (snd l) \<in> set acts)"
proof (induction acts rule: rev_induct)
  case Nil
  then show ?case by (simp add: run_def initial_def)
next
  case (snoc a acts)
  have p: "paired (run acts initial)" by (rule paired_run)
  show ?case
  proof (cases a)
    case (DeleteItem i)
    with snoc show ?thesis
      by (auto simp: run_snoc deleteItem_def)
  next
    case ClickConfirm
    with snoc show ?thesis
      by (auto simp: run_snoc click_confirm_paired [OF p])
  next
    case ClickCancel
    with snoc show ?thesis
      by (auto simp: run_snoc click_cancel_paired [OF p])
  qed
qed

text \<open>
  C7. In every state that the dialog can reach: \<open>deleteItem\<close> shows the dialog and issues
  no request; a click on Cancel issues no request; a click on Confirm issues exactly the
  DELETE requests to \<open>/data/{id}\<close> of the pending deletions; after either click no
  listener is left on either button; a step that issues a request is a click on Confirm;
  and every request of a run is the DELETE of an id for which \<open>deleteItem\<close> was called
  and Confirm was clicked.
\<close>

theorem deletion_gated:
  assumes "s = run acts initial"
  shows "requests (deleteItem i s) = requests s \<and> modalShown (deleteItem i s) \<and>
    requests (click_cancel s) = requests s \<and>
    requests (click_confirm s) =
      requests s @ map (\<lambda>l. \<lparr>req_method = DELETE, req_endpoint = js ''/data/'' @ field_string (snd l),
                              req_body = None\<rparr>) (confirmListeners s) \<and>
    confirmListeners (click_confirm s) = [] \<and> cancelListeners (click_confirm s) = [] \<and>
    confirmListeners (click_cancel s) = [] \<and> cancelListeners (click_cancel s) = [] \<and>
    (\<forall>a. requests (step a s) \<noteq> requests s \<longrightarrow> a = ClickConfirm) \<and>
    (\<forall>r \<in> set (requests s).
       \<exists>j. DeleteItem j \<in> set acts \<and> ClickConfirm \<in> set acts \<and>
           r = \<lparr>req_method = DELETE, req_endpoint = js ''/data/'' @ field_string j, req_body = None\<rparr>)"
proof -
  have p: "paired s" unfolding assms by (rule paired_run)
  have d: "requests (deleteItem i s) = requests s \<and> modalShown (deleteItem i s)" for i
    by (simp add: deleteItem_def)
  have st: "requests (step a s) \<noteq> requests s \<longrightarrow> a = ClickConfirm" for a
    by (cases a) (simp_all add: d click_cancel_paired [OF p])
  have rq: "\<forall>r \<in> set (requests s).
       \<exists>j. DeleteItem j \<in> set acts \<and> ClickConfirm \<in> set acts \<and> r = delete_request j"
    unfolding assms using run_requests by blast
  show ?thesis
    using d [of i] st rq click_cancel_paired [OF p] click_confirm_paired [OF p]
    by (simp add: delete_request_def)
qed

theorem deletion_gated_witness:
  "requests (deleteItem (Str (js ''42'')) initial) = [] \<and>
   modalShown (deleteItem (Str (js ''42'')) initial) \<and>
   requests (click_cancel (run [DeleteItem (Str (js ''42''))] initial)) = [] \<and>
   requests (click_confirm (run [DeleteItem (Str (js ''42''))] initial)) =
     [\<lparr>req_method = DELETE, req_endpoint = js ''/data/42'', req_body = None\<rparr>] \<and>
   confirmListeners (click_confirm (run [DeleteItem (Str (js ''42''))] initial)) = [] \<and>
   cancelListeners (click_confirm (run [DeleteItem (Str (js ''42''))] initial)) = [] \<and>
   confirmListeners (click_cancel (run [DeleteItem (Str (js ''42''))] initial)) = [] \<and>
   cancelListeners (click_cancel (run [DeleteItem (Str (js ''42''))] initial)) = []"
proof -
  define d where "d = Str (js ''42'')"
  have s: "requests (run [DeleteItem d] initial) = []"
    "confirmListeners (run [DeleteItem d] initial) = [(0, d)]"
    by (simp_all add: run_def deleteItem_def initial_def)
  have i: "requests initial = []" "initial = run [] initial"
    by (simp_all add: initial_def run_def)
  have e: "js ''/data/'' @ field_string d = js ''/data/42''"
    by (simp add: d_def js_def)
  from deletion_gated [of _ "[DeleteItem d]" d, OF refl]
    deletion_gated [of initial "[]" d, OF i(2)]
  have "requests (deleteItem d initial) = [] \<and>
   modalShown (deleteItem d initial) \<and>
   requests (click_cancel (run [DeleteItem d] initial)) = [] \<and>
   requests (click_confirm (run [DeleteItem d] initial)) =
     [\<lparr>req_method = DELETE, req_endpoint = js ''/data/42'', req_body = None\<rparr>] \<and>
   confirmListeners (click_confirm (run [DeleteItem d] initial)) = [] \<and>
   cancelListeners (click_confirm (run [DeleteItem d] initial)) = [] \<and>
   confirmListeners (click_cancel (run [DeleteItem d] initial)) = [] \<and>
   cancelListeners (click_cancel (run [DeleteItem d] initial)) = []"
    by (simp add: s i(1) e)
  then show ?thesis by (simp add: d_def)
qed

section \<open>Properties of the matcher\<close>

lemma matched_simps [simp]:
  "matched [] = []" "matched (TCh c # t) = c # matched t"
  "matched (TOpen # t) = matched t" "matched (TClose # t) = matched t"
  by (simp_all add: matched_def)

lemma matched_append [simp]: "matched (t @ u) = matched t @ matched u"
  by (simp add: matched_def)

lemma matched_map_TCh [simp]: "matched (map TCh xs) = xs"
  by (induction xs) simp_all

text \<open>A match consumes a prefix of the text.\<close>

lemma match_at_sound:
  "match_at ic r s = Some (t, rest) \<Longrightarrow> s = matched t @ rest"
  by (induction ic r s arbitrary: t rest rule: match_at.induct)
    (auto split: option.splits if_splits)

lemma match_at_mandatory:
  "match_at ic r s = Some (t, rest) \<Longrightarrow> mandatory r \<le> length (matched t)"
  by (induction ic r s arbitrary: t rest rule: match_at.induct)
    (auto split: option.splits if_splits)

lemma search_sound:
  "search ic r pre s = Some (p, t, post) \<Longrightarrow>
   rev pre @ s = p @ matched t @ post \<and> (\<exists>s'. match_at ic r s' = Some (t, post))"
proof (induction ic r pre s rule: search.induct)
  case (1 ic r pre)
  then show ?case by (auto split: option.splits dest: match_at_sound)
next
  case (2 ic r pre x xs)
  show ?case
  proof (cases "match_at ic r (x # xs)")
    case None
    with 2 show ?thesis by simp
  next
    case (Some a)
    obtain t' rest' where a: "a = (t', rest')" by (cases a)
    from 2(2) Some a have "p = rev pre" "t = t'" "post = rest'" by simp_all
    with Some a match_at_sound [of ic r "x # xs" t' rest'] show ?thesis by auto
  qed
qed

lemma re_match_sound:
  assumes "re_match re s = Some (p, t, post)"
  shows "s = p @ matched t @ post" and "mandatory (atoms re) \<le> length (matched t)"
    and "\<exists>s'. match_at (icase re) (atoms re) s' = Some (t, post)"
proof -
  from assms have "search (icase re) (atoms re) [] s = Some (p, t, post)"
    by (simp add: re_match_def)
  from search_sound [OF this]
  show "s = p @ matched t @ post" and e: "\<exists>s'. match_at (icase re) (atoms re) s' = Some (t, post)"
    by simp_all
  from e match_at_mandatory show "mandatory (atoms re) \<le> length (matched t)" by blast
qed

text \<open>Removing a match of a pattern that needs a character gives a shorter text.\<close>

lemma re_remove_shorter:
  assumes "re_match re s \<noteq> None" and "0 < mandatory (atoms re)"
  shows "length (re_remove re s) < length s"
proof -
  from assms(1) obtain p t post where m: "re_match re s = Some (p, t, post)" by auto
  from re_match_sound [OF m] assms(2)
  have "s = p @ matched t @ post" "0 < length (matched t)" by auto
  then have "length (p @ post) < length s"
    by (metis add_less_cancel_left length_append less_add_same_cancel2 add.commute)
  with m show ?thesis by (simp add: re_remove_def)
qed

lemma length_trim: "length (trim s) \<le> length s"
proof -
  have "length (dropWhile P xs) \<le> length xs" for P and xs :: "nat list"
    by (induction xs) simp_all
  then have "length (dropWhile is_space (rev (dropWhile is_space s))) \<le> length (dropWhile is_space s)"
    "length (dropWhile is_space s) \<le> length s"
    by (metis length_rev)+
  then show ?thesis by (simp add: trim_def)
qed






section \<open>The patterns in normal form\<close>

lemma pattern1_atoms:
  "atoms pattern1 =
     [GOpen, Ch Digit Plus, Ch (Lit 46) Opt, Ch Digit Star, GClose, Ch Space Star,
      Ch (Lit 102) One, Ch (Lit 108) One, Ch Space Star, Ch (Lit 111) One, Ch (Lit 122) One,
      Ch Space Star, Ch (Lit 99) One, Ch (Lit 117) One, Ch (Lit 112) One, Ch Space Star,
      Ch (Lit 40) One, Ch Digit Plus, Ch Space Star, Ch (Lit 103) One, Ch (Lit 41) One]"
  "icase pattern1"
  by (simp_all add: pattern1_def lits_def lit_def number_atoms_def)

lemma pattern2_atoms:
  "atoms pattern2 =
     [Ch (Lit 40) One, GOpen, Ch Digit Plus, Ch (Lit 46) Opt, Ch Digit Star, GClose, Ch Space Star,
      Ch (Lit 102) One, Ch (Lit 108) One, Ch Space Star, Ch (Lit 111) One, Ch (Lit 122) One,
      Ch Space Star, Ch (Lit 99) One, Ch (Lit 117) One, Ch (Lit 112) One, Ch (Lit 41) One]"
  "icase pattern2"
  by (simp_all add: pattern2_def lits_def lit_def number_atoms_def)

lemma pattern3_atoms:
  "atoms pattern3 =
     [GOpen, Ch Digit Plus, Ch (Lit 46) Opt, Ch Digit Star, GClose, Ch Space Star,
      Ch (Lit 102) One, Ch (Lit 108) One, Ch Space Star, Ch (Lit 111) One, Ch (Lit 122) One]"
  "icase pattern3"
  by (simp_all add: pattern3_def lits_def lit_def number_atoms_def)

lemma pattern4_atoms:
  "atoms pattern4 =
     [GOpen, Ch Digit Plus, Ch (Lit 46) Opt, Ch Digit Star, GClose, Ch Space Star,
      Ch (Lit 111) One, Ch (Lit 122) One, Ch Space Star, Ch (Lit 40) One,
      GOpen, Ch Digit Plus, GClose, Ch Space Star, Ch (Lit 103) One, Ch (Lit 41) One]"
  "icase pattern4"
  by (simp_all add: pattern4_def lits_def lit_def number_atoms_def)

lemma pattern5_atoms:
  "atoms pattern5 =
     [Ch Digit Plus, Ch Space Star, Ch (Lit 99) One, Ch (Lit 111) One, Ch (Lit 111) One,
      Ch (Lit 107) One, Ch (Lit 105) One, Ch (Lit 101) One, Ch Space Star, Ch (Lit 40) One,
      GOpen, Ch Digit Plus, Ch (Lit 46) Opt, Ch Digit Star, GClose, Ch Space Star,
      Ch (Lit 103) One, Ch (Lit 41) One]"
  "icase pattern5"
  by (simp_all add: pattern5_def lits_def lit_def number_atoms_def)

lemma pattern6_atoms:
  "atoms pattern6 =
     [Ch (Lit 40) Opt, Ch Space Star, GOpen, Ch Digit Plus, Ch (Lit 46) Opt, Ch Digit Star,
      GClose, Ch Space Star, Ch (Lit 103) One, Ch Space Star, Ch (Lit 41) Opt]"
  "icase pattern6"
  by (simp_all add: pattern6_def lits_def lit_def number_atoms_def)

lemma oz_grams_atoms:
  "atoms oz_grams_re =
     [Ch Space Star, GOpen, Ch DigitOrDot Plus, GClose, Ch Space Star, Ch (Lit 111) One,
      Ch (Lit 122) One, Ch Space Star, Ch (Lit 40) One, GOpen, Ch Digit Plus, GClose,
      Ch Space Star, Ch (Lit 103) One, Ch (Lit 41) One, Ch Space Star, Eos]"
  "\<not> icase oz_grams_re"
  "atoms oz_grams_rm =
     [Ch Space Star, Ch DigitOrDot Plus, Ch Space Star, Ch (Lit 111) One,
      Ch (Lit 122) One, Ch Space Star, Ch (Lit 40) One, Ch Digit Plus,
      Ch Space Star, Ch (Lit 103) One, Ch (Lit 41) One, Ch Space Star, Eos]"
  "\<not> icase oz_grams_rm"
  by (simp_all add: oz_grams_re_def oz_grams_rm_def lits_def lit_def)

lemma paren_grams_atoms:
  "atoms paren_grams_re =
     [Ch Space Star, Ch (Lit 40) One, GOpen, Ch Digit Plus, GClose, Ch Space Star,
      Ch (Lit 103) One, Ch (Lit 41) One, Ch Space Star, Eos]"
  "\<not> icase paren_grams_re"
  "atoms paren_grams_rm =
     [Ch Space Star, Ch (Lit 40) One, Ch Digit Plus, Ch Space Star,
      Ch (Lit 103) One, Ch (Lit 41) One, Ch Space Star, Eos]"
  "\<not> icase paren_grams_rm"
  by (simp_all add: paren_grams_re_def paren_grams_rm_def lits_def lit_def)

lemma bare_grams_atoms:
  "atoms bare_grams_re =
     [Ch Space Plus, GOpen, Ch Digit Plus, GClose, Ch Space Star, Ch (Lit 103) One,
      Ch Space Star, Eos]"
  "\<not> icase bare_grams_re"
  "atoms bare_grams_rm =
     [Ch Space Plus, Ch Digit Plus, Ch Space Star, Ch (Lit 103) One, Ch Space Star, Eos]"
  "\<not> icase bare_grams_rm"
  by (simp_all add: bare_grams_re_def bare_grams_rm_def lits_def lit_def)

lemma paren_oz_atoms:
  "atoms paren_oz_re =
     [Ch Space Star, Ch (Lit 40) One, GOpen, Ch DigitOrDot Plus, GClose, Ch Space Star,
      Ch (Lit 111) One, Ch (Lit 122) One, Ch (Lit 41) One, Ch Space Star, Eos]"
  "\<not> icase paren_oz_re"
  "atoms paren_oz_rm =
     [Ch Space Star, Ch (Lit 40) One, Ch DigitOrDot Plus, Ch Space Star,
      Ch (Lit 111) One, Ch (Lit 122) One, Ch (Lit 41) One, Ch Space Star, Eos]"
  "\<not> icase paren_oz_rm"
  by (simp_all add: paren_oz_re_def paren_oz_rm_def lits_def lit_def)

lemma bare_oz_atoms:
  "atoms bare_oz_re =
     [Ch Space Plus, GOpen, Ch DigitOrDot Plus, GClose, Ch Space Star,
      Ch (Lit 111) One, Ch (Lit 122) One, Ch Space Star, Eos]"
  "\<not> icase bare_oz_re"
  "atoms bare_oz_rm =
     [Ch Space Plus, Ch DigitOrDot Plus, Ch Space Star,
      Ch (Lit 111) One, Ch (Lit 122) One, Ch Space Star, Eos]"
  "\<not> icase bare_oz_rm"
  by (simp_all add: bare_oz_re_def bare_oz_rm_def lits_def lit_def)

lemmas manager_atoms =
  pattern1_atoms pattern2_atoms pattern3_atoms pattern4_atoms pattern5_atoms pattern6_atoms

lemmas public_atoms =
  oz_grams_atoms paren_grams_atoms bare_grams_atoms paren_oz_atoms bare_oz_atoms

text \<open>The rules that evaluate the two parsers on a given text.\<close>

lemmas char_eval = is_digit_def is_space_def upcase_def js_def

lemmas manager_eval =
  parseWeight_def block1_def block2_def block3_def block4_def block5_def block6_def
  re_match_def re_remove_def manager_atoms char_eval trim_def cap_def beverage_like_def

lemmas public_eval =
  extractWeight_def grams_only_def ounces_only_def re_match_def re_remove_def public_atoms
  char_eval cap_def

lemma weight_div_nonempty: "weight_div q u \<noteq> []"
  by (simp add: weight_div_def js_Cons)
section \<open>Weight extraction: one quantity at a time\<close>

lemma parseWeight_unnamed: "parseWeight (Str []) c = (js ''Unnamed Item'', [])"
  by (simp add: manager_eval Let_def)

lemma manager_mandatory:
  "0 < mandatory (atoms pattern1)" "0 < mandatory (atoms pattern2)" "0 < mandatory (atoms pattern3)"
  "0 < mandatory (atoms pattern4)" "0 < mandatory (atoms pattern5)" "0 < mandatory (atoms pattern6)"
  by (simp_all add: manager_atoms)

text \<open>
  The state of the parsing of a name \<open>x\<close>: either nothing was found and the name is
  still \<open>x\<close>, or a quantity was found and the name has become shorter.
\<close>

lemma cleaned_shorter:
  assumes "re_match re n \<noteq> None" and "0 < mandatory (atoms re)" and "length n \<le> length x"
  shows "length (trim (re_remove re n)) < length x"
  using re_remove_shorter [OF assms(1,2)] length_trim [of "re_remove re n"] assms(3) by linarith

lemma match_progress:
  assumes "progress x (n, w)" and "0 < mandatory (atoms re)" and "\<And>m. f m \<noteq> []"
  shows "progress x
    (case re_match re n of
       Some (pre, m, post) \<Rightarrow> (trim (re_remove re n), f m)
     | None \<Rightarrow> (n, w))"
proof (cases "re_match re n")
  case None
  with assms(1) show ?thesis by simp
next
  case (Some a)
  obtain p t post where a: "a = (p, t, post)" by (cases a)
  from assms(1) have l: "length n \<le> length x" by (auto simp: progress_def)
  from Some have "re_match re n \<noteq> None" by simp
  from cleaned_shorter [OF this assms(2) l] assms(3) Some a show ?thesis
    by (simp add: progress_def)
qed

lemma block1_progress: "progress x st \<Longrightarrow> progress x (block1 st)"
proof (cases st)
  case (Pair n w)
  assume "progress x st"
  with Pair have p: "progress x (n, w)" by simp
  from match_progress [of x n w pattern1 "\<lambda>m. weight_div (cap m 0) ''fl oz''"] p
  show ?thesis
    unfolding Pair by (simp add: block1_def manager_mandatory weight_div_nonempty)
qed

lemma block2_progress: "progress x st \<Longrightarrow> progress x (block2 st)"
proof (cases st)
  case (Pair n w)
  assume "progress x st"
  with Pair have p: "progress x (n, w)" by simp
  from match_progress [of x n w pattern2 "\<lambda>m. weight_div (cap m 0) ''fl oz''"] p
  show ?thesis
    unfolding Pair by (simp add: block2_def manager_mandatory weight_div_nonempty)
qed

lemma block3_progress: "progress x st \<Longrightarrow> progress x (block3 st)"
proof (cases st)
  case (Pair n w)
  assume "progress x st"
  with Pair have p: "progress x (n, w)" by simp
  from match_progress [of x n w pattern3 "\<lambda>m. weight_div (cap m 0) ''fl oz''"] p
  show ?thesis
    unfolding Pair by (simp add: block3_def manager_mandatory weight_div_nonempty)
qed

lemma block4_progress: "progress x st \<Longrightarrow> progress x (block4 category st)"
proof (cases st)
  case (Pair n w)
  assume "progress x st"
  with Pair have p: "progress x (n, w)" by simp
  from match_progress [of x n w pattern4 "\<lambda>m. if beverage_like category then weight_div (cap m 0) ''oz'' else weight_div (cap m 1) ''g''"] p
  show ?thesis
    unfolding Pair by (simp add: block4_def manager_mandatory weight_div_nonempty)
qed

lemma block5_progress: "progress x st \<Longrightarrow> progress x (block5 st)"
proof (cases st)
  case (Pair n w)
  assume "progress x st"
  with Pair have p: "progress x (n, w)" by simp
  from match_progress [of x n w pattern5 "\<lambda>m. weight_div (cap m 0) ''g''"] p
  show ?thesis
    unfolding Pair by (simp add: block5_def manager_mandatory weight_div_nonempty)
qed

lemma block6_progress: "progress x st \<Longrightarrow> progress x (block6 category st)"
proof (cases st)
  case (Pair n w)
  assume "progress x st"
  with Pair have p: "progress x (n, w)" by simp
  from match_progress [of x n w pattern6 "\<lambda>m. weight_div (cap m 0) ''g''"] p
  show ?thesis
    unfolding Pair by (simp add: block6_def manager_mandatory weight_div_nonempty)
qed

lemma parseWeight_progress:
  assumes "x \<noteq> []"
  shows "progress x (parseWeight (Str x) c)"
proof -
  have "progress x (x, [])" by (simp add: progress_def)
  then have "progress x (block6 (or_default c [])
      (block5 (block4 (or_default c []) (block3 (block2 (block1 (x, [])))))))"
    by (intro block6_progress block5_progress block4_progress block3_progress
        block2_progress block1_progress)
  with assms show ?thesis by (simp add: parseWeight_def Let_def)
qed

text \<open>One application in the manager view: no quantity and the name unchanged, or a
  quantity and a shorter name.\<close>

lemma parseWeight_once:
  assumes "parseWeight (Str x) c = (n, w)"
  shows "(w = [] \<and> x \<noteq> [] \<longrightarrow> n = x) \<and> (w \<noteq> [] \<longrightarrow> length n < length x)"
proof (cases "x = []")
  case True
  with assms parseWeight_unnamed [of c] show ?thesis by simp
next
  case False
  from parseWeight_progress [OF False, of c] assms show ?thesis
    by (auto simp: progress_def)
qed






















section \<open>Greedy quantifiers on a run of characters\<close>

lemma star_take:
  "list_all (cls_mem ic c) xs \<Longrightarrow> match_at ic (Ch c Star # r) ys = Some (t, rest) \<Longrightarrow>
   match_at ic (Ch c Star # r) (xs @ ys) = Some (map TCh xs @ t, rest)"
  by (induction xs) simp_all

lemma plus_take:
  "xs \<noteq> [] \<Longrightarrow> list_all (cls_mem ic c) xs \<Longrightarrow>
   match_at ic (Ch c Star # r) ys = Some (t, rest) \<Longrightarrow>
   match_at ic (Ch c Plus # r) (xs @ ys) = Some (map TCh xs @ t, rest)"
  by (cases xs) (simp_all add: star_take)

lemma star_stop:
  "\<not> cls_mem ic c x \<Longrightarrow> match_at ic (Ch c Star # r) (x # xs) = match_at ic r (x # xs)"
  by simp

lemma opt_skip:
  "\<not> cls_mem ic c x \<Longrightarrow> match_at ic (Ch c Opt # r) (x # xs) = match_at ic r (x # xs)"
  by simp

lemma opt_take:
  "cls_mem ic c x \<Longrightarrow> match_at ic r xs = Some (t, rest) \<Longrightarrow>
   match_at ic (Ch c Opt # r) (x # xs) = Some (TCh x # t, rest)"
  by simp

lemma group_text_chars [simp]: "group_text (map TCh xs @ t) = xs @ group_text t"
  by (induction xs) simp_all

lemma captures_chars [simp]: "captures (map TCh xs @ t) = captures t"
  by (induction xs) simp_all

text \<open>The search passes the positions at which no match begins.\<close>

lemma search_skip:
  "\<not> begins_within re pre (y # ys) \<Longrightarrow>
   search (icase re) (atoms re) acc (pre @ y # ys) =
     search (icase re) (atoms re) (rev pre @ acc) (y # ys)"
proof (induction pre arbitrary: acc)
  case Nil
  show ?case by simp
next
  case (Cons a pre)
  from Cons.prems have none: "match_at (icase re) (atoms re) (a # pre @ y # ys) = None"
    and rest: "\<not> begins_within re pre (y # ys)"
    by (cases "match_at (icase re) (atoms re) (a # pre @ y # ys)"; simp)+
  have "search (icase re) (atoms re) acc ((a # pre) @ y # ys) =
      search (icase re) (atoms re) (a # acc) (pre @ y # ys)"
    by (simp add: none)
  also have "\<dots> = search (icase re) (atoms re) (rev pre @ a # acc) (y # ys)"
    by (rule Cons.IH [OF rest])
  finally show ?case by simp
qed

lemma search_found:
  assumes "\<not> begins_within re pre (y # ys)"
    and "match_at (icase re) (atoms re) (y # ys) = Some (t, rest)"
  shows "re_match re (pre @ y # ys) = Some (pre, t, rest)"
proof -
  have "re_match re (pre @ y # ys) = search (icase re) (atoms re) (rev pre @ []) (y # ys)"
    unfolding re_match_def by (rule search_skip [OF assms(1)])
  also have "\<dots> = Some (pre, t, rest)"
    using assms(2) by simp
  finally show ?thesis .
qed

section \<open>Names with ounces and grams in the manager view\<close>

lemma pattern4_match:
  assumes i: "i \<noteq> []" "list_all is_digit i"
    and frac: "frac = [] \<or> (\<exists>d. frac = 46 # d \<and> list_all is_digit d)"
    and M: "M \<noteq> []" "list_all is_digit M"
    and pre: "\<not> begins_within pattern4 pre (i @ frac @ js '' oz ('' @ M @ js '' g)'' @ post)"
  shows "\<exists>t. re_match pattern4 (pre @ i @ frac @ js '' oz ('' @ M @ js '' g)'' @ post) =
      Some (pre, t, post) \<and> cap t 0 = i @ frac \<and> cap t 1 = M"
proof -
  let ?tail = "[Ch Space Star, Ch (Lit 103) One, Ch (Lit 41) One]"
  let ?r5 = "GClose # Ch Space Star # Ch (Lit 111) One # Ch (Lit 122) One # Ch Space Star #
      Ch (Lit 40) One # GOpen # Ch Digit Plus # GClose # ?tail"
  let ?tE = "TClose # TCh 32 # TCh 111 # TCh 122 # TCh 32 # TCh 40 # TOpen #
      map TCh M @ [TClose, TCh 32, TCh 103, TCh 41]"
  let ?rest = "32 # 111 # 122 # 32 # 40 # M @ 32 # 103 # 41 # post"
  have lit: "js '' oz ('' @ M @ js '' g)'' @ post = ?rest" by (simp add: js_def)
  have dM: "list_all (cls_mem True Digit) M" using M(2) by (simp add: list_all_iff)
  have di: "list_all (cls_mem True Digit) i" using i(2) by (simp add: list_all_iff)
  have B: "match_at True (Ch Digit Star # GClose # ?tail) (32 # 103 # 41 # post) =
      Some ([TClose, TCh 32, TCh 103, TCh 41], post)"
    by (simp add: char_eval)
  have C: "match_at True (Ch Digit Plus # GClose # ?tail) (M @ 32 # 103 # 41 # post) =
      Some (map TCh M @ [TClose, TCh 32, TCh 103, TCh 41], post)"
    by (rule plus_take [OF M(1) dM B])
  have E: "match_at True ?r5 ?rest = Some (?tE, post)"
    by (simp add: C char_eval)
  have nd: "\<not> cls_mem True Digit 32" "\<not> cls_mem True (Lit 46) 32" "\<not> cls_mem True Digit 46"
    "cls_mem True (Lit 46) 46"
    by (simp_all add: char_eval)
  have G: "match_at True (Ch Digit Star # ?r5) ?rest = Some (?tE, post)"
    by (simp only: star_stop [OF nd(1)] E)
  have F: "match_at True (Ch Digit Star # Ch (Lit 46) Opt # Ch Digit Star # ?r5) (frac @ ?rest) =
      Some (map TCh frac @ ?tE, post)"
  proof (cases "frac = []")
    case True
    then show ?thesis
      by (simp only: star_stop [OF nd(1)] opt_skip [OF nd(2)] E append_Nil list.map)
  next
    case False
    with frac obtain d where d: "frac = 46 # d" "list_all is_digit d" by blast
    have dd: "list_all (cls_mem True Digit) d" using d(2) by (simp add: list_all_iff)
    have "match_at True (Ch Digit Star # ?r5) (d @ ?rest) = Some (map TCh d @ ?tE, post)"
      by (rule star_take [OF dd G])
    from opt_take [OF nd(4) this]
    show ?thesis
      by (simp only: d(1) append_Cons list.map star_stop [OF nd(3)])
  qed
  have H: "match_at True (Ch Digit Plus # Ch (Lit 46) Opt # Ch Digit Star # ?r5) (i @ frac @ ?rest) =
      Some (map TCh i @ map TCh frac @ ?tE, post)"
    by (rule plus_take [OF i(1) di F])
  have I: "match_at (icase pattern4) (atoms pattern4) (i @ frac @ ?rest) =
      Some (TOpen # map TCh i @ map TCh frac @ ?tE, post)"
    by (simp add: pattern4_atoms H)
  obtain y ys where y: "i @ frac @ ?rest = y # ys"
    using i(1) by (cases i) auto
  from pre have p: "\<not> begins_within pattern4 pre (y # ys)"
    unfolding lit y .
  from I have "match_at (icase pattern4) (atoms pattern4) (y # ys) =
      Some (TOpen # map TCh i @ map TCh frac @ ?tE, post)"
    unfolding y .
  from search_found [OF p this]
  have "re_match pattern4 (pre @ i @ frac @ ?rest) =
      Some (pre, TOpen # map TCh i @ map TCh frac @ ?tE, post)"
    unfolding y .
  moreover have "cap (TOpen # map TCh i @ map TCh frac @ ?tE) 0 = i @ frac"
    "cap (TOpen # map TCh i @ map TCh frac @ ?tE) 1 = M"
    by (simp_all add: cap_def)
  ultimately show ?thesis unfolding lit by simp
qed

text \<open>
  C4. For a name \<open>pre N oz (M g) post\<close>, where \<open>N\<close> is a number (digits, or digits, a
  point and digits) and \<open>M\<close> is a run of digits, where this is the first quantity of
  the form in the name (no match of the fourth pattern begins in \<open>pre\<close>) and none of
  the three fl-oz patterns matches the name: the quantity that the manager view shows
  is the text \<open>N oz\<close> when the category is BEVERAGE, CONDIMENT or DESSERTSHAKE and the
  text \<open>M g\<close> for every other category (also when the item has none), in the markup of
  the weight; the name shown is the rest of the name, trimmed.
\<close>

theorem oz_grams_by_category:
  assumes "i \<noteq> []" and "list_all is_digit i"
    and "frac = [] \<or> (\<exists>d. frac = 46 # d \<and> list_all is_digit d)"
    and "M \<noteq> []" and "list_all is_digit M"
    and "N = i @ frac"
    and "name = pre @ N @ js '' oz ('' @ M @ js '' g)'' @ post"
    and "\<not> begins_within pattern4 pre (N @ js '' oz ('' @ M @ js '' g)'' @ post)"
    and "re_match pattern1 name = None" and "re_match pattern2 name = None"
    and "re_match pattern3 name = None"
  shows \<open>(category = Str (js ''BEVERAGE'') \<or> category = Str (js ''CONDIMENT'') \<or>
          category = Str (js ''DESSERTSHAKE'') \<longrightarrow>
            parseWeight (Str name) category =
              (trim (pre @ post), js ''<div class="weight-info">'' @ N @ js '' oz</div>'')) \<and>
         (category \<noteq> Str (js ''BEVERAGE'') \<and> category \<noteq> Str (js ''CONDIMENT'') \<and>
          category \<noteq> Str (js ''DESSERTSHAKE'') \<longrightarrow>
            parseWeight (Str name) category =
              (trim (pre @ post), js ''<div class="weight-info">'' @ M @ js '' g</div>''))\<close>
proof -
  from assms(8) have "\<not> begins_within pattern4 pre (i @ frac @ js '' oz ('' @ M @ js '' g)'' @ post)"
    unfolding assms(6) by simp
  from pattern4_match [OF assms(1-5) this] assms(6,7)
  obtain t where t: "re_match pattern4 name = Some (pre, t, post)"
    "cap t 0 = N" "cap t 1 = M" by auto
  from assms(1,6,7) have ne: "name \<noteq> []" by simp
  have b123: "block3 (block2 (block1 (name, []))) = (name, [])"
    using assms(9-11) by (simp add: block1_def block2_def block3_def)
  have rm: "re_remove pattern4 name = pre @ post"
    using t(1) by (simp add: re_remove_def)
  have b4: "block4 c (name, []) =
      (trim (pre @ post), if beverage_like c then weight_div N ''oz'' else weight_div M ''g'')" for c
    using t by (simp add: block4_def rm)
  have b56: "block6 c (block5 (n, w)) = (n, w)" if "w \<noteq> []" for c n w
    using that by (simp add: block5_def block6_def)
  have pw: "parseWeight (Str name) category =
      (trim (pre @ post),
       if beverage_like (or_default category []) then weight_div N ''oz''
       else weight_div M ''g'')"
    using ne by (simp add: parseWeight_def Let_def b123 b4 b56 weight_div_nonempty)
  have bl: "beverage_like (or_default category []) \<longleftrightarrow>
      category = Str (js ''BEVERAGE'') \<or> category = Str (js ''CONDIMENT'') \<or>
      category = Str (js ''DESSERTSHAKE'')"
    by (cases category) (auto simp: beverage_like_def js_def)
  have markup: \<open>weight_div N ''oz'' = js ''<div class="weight-info">'' @ N @ js '' oz</div>''\<close>
    \<open>weight_div M ''g'' = js ''<div class="weight-info">'' @ M @ js '' g</div>''\<close>
    by (simp_all add: weight_div_def js_def)
  show ?thesis
    unfolding pw bl markup by simp
qed

theorem oz_grams_by_category_witness:
  \<open>parseWeight (Str (js ''8.9 oz (251 g)'')) (Str (js ''BEVERAGE'')) =
     ([], js ''<div class="weight-info">8.9 oz</div>'') \<and>
   parseWeight (Str (js ''8.9 oz (251 g)'')) (Str (js ''SNACKSIDE'')) =
     ([], js ''<div class="weight-info">251 g</div>'') \<and>
   parseWeight (Str (js ''Chicken McNuggets (4 piece) 2.3 oz (65 g)'')) (Str (js ''CONDIMENT'')) =
     (js ''Chicken McNuggets (4 piece)'', js ''<div class="weight-info">2.3 oz</div>'') \<and>
   parseWeight (Str (js ''Chicken McNuggets (4 piece) 2.3 oz (65 g)'')) (Str (js ''CHICKENFISH'')) =
     (js ''Chicken McNuggets (4 piece)'', js ''<div class="weight-info">65 g</div>'')\<close>
proof -
  have n: "js ''8.9 oz (251 g)'' = [] @ js ''8.9'' @ js '' oz ('' @ js ''251'' @ js '' g)'' @ []"
    by (simp add: js_def)
  have h: "js ''8'' \<noteq> []" "list_all is_digit (js ''8'')"
    "js ''.9'' = [] \<or> (\<exists>d. js ''.9'' = 46 # d \<and> list_all is_digit d)"
    "js ''251'' \<noteq> []" "list_all is_digit (js ''251'')"
    "js ''8.9'' = js ''8'' @ js ''.9''"
    by (simp_all add: char_eval)
  have b: "\<not> begins_within pattern4 [] (js ''8.9'' @ js '' oz ('' @ js ''251'' @ js '' g)'' @ [])"
    by simp
  have f: "re_match pattern1 (js ''8.9 oz (251 g)'') = None"
    "re_match pattern2 (js ''8.9 oz (251 g)'') = None"
    "re_match pattern3 (js ''8.9 oz (251 g)'') = None"
    by (simp_all add: re_match_def manager_atoms char_eval)
  have c: "Str (js ''SNACKSIDE'') \<noteq> Str (js ''BEVERAGE'')" "Str (js ''SNACKSIDE'') \<noteq> Str (js ''CONDIMENT'')"
    "Str (js ''SNACKSIDE'') \<noteq> Str (js ''DESSERTSHAKE'')"
    "Str (js ''CHICKENFISH'') \<noteq> Str (js ''BEVERAGE'')" "Str (js ''CHICKENFISH'') \<noteq> Str (js ''CONDIMENT'')"
    "Str (js ''CHICKENFISH'') \<noteq> Str (js ''DESSERTSHAKE'')"
    by (simp_all add: js_def)
  have e: "trim ([] @ []) = []"
    \<open>js ''<div class="weight-info">'' @ js ''8.9'' @ js '' oz</div>'' = js ''<div class="weight-info">8.9 oz</div>''\<close>
    \<open>js ''<div class="weight-info">'' @ js ''251'' @ js '' g</div>'' = js ''<div class="weight-info">251 g</div>''\<close>
    \<open>js ''<div class="weight-info">'' @ js ''2.3'' @ js '' oz</div>'' = js ''<div class="weight-info">2.3 oz</div>''\<close>
    \<open>js ''<div class="weight-info">'' @ js ''65'' @ js '' g</div>'' = js ''<div class="weight-info">65 g</div>''\<close>
    "trim (js ''Chicken McNuggets (4 piece) '' @ []) = js ''Chicken McNuggets (4 piece)''"
    by (simp_all add: trim_def js_def is_space_def)
  have n': "js ''Chicken McNuggets (4 piece) 2.3 oz (65 g)'' =
      js ''Chicken McNuggets (4 piece) '' @ js ''2.3'' @ js '' oz ('' @ js ''65'' @ js '' g)'' @ []"
    by (simp add: js_def)
  have h': "js ''2'' \<noteq> []" "list_all is_digit (js ''2'')"
    "js ''.3'' = [] \<or> (\<exists>d. js ''.3'' = 46 # d \<and> list_all is_digit d)"
    "js ''65'' \<noteq> []" "list_all is_digit (js ''65'')"
    "js ''2.3'' = js ''2'' @ js ''.3''"
    by (simp_all add: char_eval)
  have b': "\<not> begins_within pattern4 (js ''Chicken McNuggets (4 piece) '')
      (js ''2.3'' @ js '' oz ('' @ js ''65'' @ js '' g)'' @ [])"
    by (simp add: pattern4_atoms char_eval)
  have f': "re_match pattern1 (js ''Chicken McNuggets (4 piece) 2.3 oz (65 g)'') = None"
    "re_match pattern2 (js ''Chicken McNuggets (4 piece) 2.3 oz (65 g)'') = None"
    "re_match pattern3 (js ''Chicken McNuggets (4 piece) 2.3 oz (65 g)'') = None"
    by (simp_all add: re_match_def manager_atoms char_eval)
  from oz_grams_by_category [OF h n b f, of "Str (js ''BEVERAGE'')"]
    oz_grams_by_category [OF h n b f, of "Str (js ''SNACKSIDE'')"]
    oz_grams_by_category [OF h' n' b' f', of "Str (js ''CONDIMENT'')"]
    oz_grams_by_category [OF h' n' b' f', of "Str (js ''CHICKENFISH'')"] c
  show ?thesis by (simp only: e simp_thms)
qed

section \<open>The two views parse differently\<close>

text \<open>
  C9. The parsers of the two views are not the same function. The manager view finds
  the quantity of "Cola (12 fl oz cup)" and shows the name "Cola"; the public view
  finds none and shows the name as it is. For "Shake 8.9 oz (251 g)" in the category
  DESSERTSHAKE both show the name "Shake", the manager view with the ounces and the
  public view with the grams. Each view has its own cascade in the code.
\<close>

theorem views_differ:
  \<open>parseWeight (Str (js ''Cola (12 fl oz cup)'')) (Str (js ''BEVERAGE'')) =
     (js ''Cola'', weight_div (js ''12'') ''fl oz'') \<and>
   extractWeight (js ''Cola (12 fl oz cup)'') =
     \<lparr>cleanedName = js ''Cola (12 fl oz cup)'', grams = [], ounces = []\<rparr> \<and>
   (\<exists>name category. fst (parseWeight (Str name) category) \<noteq> cleanedName (extractWeight name)) \<and>
   card_name (renderItem example_shake) = js ''Shake'' \<and>
   card_weight (renderItem example_shake) = js ''<div class="weight-info">8.9 oz</div>'' \<and>
   (\<exists>l. display_item (js ''DESSERTSHAKE'') Null 0 example_shake = Inr l \<and>
        item_name l = js ''Shake'' \<and>
        grams_span l = js ''<span class="item-grams">251g</span>'' \<and>
        ounces_span l = [])\<close>
proof -
  have 1: "parseWeight (Str (js ''Cola (12 fl oz cup)'')) (Str (js ''BEVERAGE'')) =
     (js ''Cola'', weight_div (js ''12'') ''fl oz'')"
    by (simp add: manager_eval)
  have 2: "extractWeight (js ''Cola (12 fl oz cup)'') =
     \<lparr>cleanedName = js ''Cola (12 fl oz cup)'', grams = [], ounces = []\<rparr>"
    by (simp add: public_eval)
  have "fst (parseWeight (Str (js ''Cola (12 fl oz cup)'')) (Str (js ''BEVERAGE''))) \<noteq>
      cleanedName (extractWeight (js ''Cola (12 fl oz cup)''))"
    unfolding 1 2 by (simp add: js_def)
  then have 3: "\<exists>name category. fst (parseWeight (Str name) category) \<noteq> cleanedName (extractWeight name)"
    by blast
  have 4: "parseWeight (Str (js ''Shake 8.9 oz (251 g)'')) (Str (js ''DESSERTSHAKE'')) =
     (js ''Shake'', weight_div (js ''8.9'') ''oz'')"
    by (simp add: manager_eval)
  have 5: "extractWeight (js ''Shake 8.9 oz (251 g)'') =
     \<lparr>cleanedName = js ''Shake'', grams = js ''251'', ounces = js ''8.9''\<rparr>"
    by (simp add: public_eval)
  have 6: "card_name (renderItem example_shake) = js ''Shake''"
    \<open>card_weight (renderItem example_shake) = js ''<div class="weight-info">8.9 oz</div>''\<close>
    by (simp_all add: renderItem_def example_shake_def 4) (simp add: weight_div_def js_def)
  have 7: \<open>\<exists>l. display_item (js ''DESSERTSHAKE'') Null 0 example_shake = Inr l \<and>
        item_name l = js ''Shake'' \<and>
        grams_span l = js ''<span class="item-grams">251g</span>'' \<and>
        ounces_span l = []\<close>
    by (simp add: display_item_def example_shake_def 5 Let_def) (simp add: js_def)
  from 1 2 3 6 7 show ?thesis by blast
qed

theorem views_differ_witness:
  "fst (parseWeight (Str (js ''Cola (12 fl oz cup)'')) (Str (js ''BEVERAGE''))) = js ''Cola'' \<and>
   cleanedName (extractWeight (js ''Cola (12 fl oz cup)'')) = js ''Cola (12 fl oz cup)''"
  using views_differ by simp

section \<open>The record built from the form\<close>














section \<open>The grouping of createListings\<close>

lemma map_of_push_item:
  "map_of (push_item k it cs) k' =
     (if k' = k then Some ((case map_of cs k of None \<Rightarrow> [] | Some b \<Rightarrow> b) @ [it])
      else map_of cs k')"
  by (induction cs) auto

lemma map_fst_push_item:
  "map fst (push_item k it cs) = (if k \<in> set (map fst cs) then map fst cs else map fst cs @ [k])"
  by (induction cs) force+

lemma keys_push_item: "fst ` set (push_item k it cs) = insert k (fst ` set cs)"
proof -
  have "set (map fst (push_item k it cs)) = insert k (set (map fst cs))"
    unfolding map_fst_push_item by auto
  then show ?thesis by (simp only: set_map)
qed

lemma distinct_push_item:
  "distinct (map fst cs) \<Longrightarrow> distinct (map fst (push_item k it cs))"
proof (induction cs)
  case Nil
  then show ?case by simp
next
  case (Cons c cs)
  obtain k' b where c: "c = (k', b)" by (cases c)
  from Cons have d: "distinct (map fst (push_item k it cs))" and n: "k' \<notin> fst ` set cs"
    by (simp_all add: c)
  show ?case
  proof (cases "k' = k")
    case True
    with Cons.prems show ?thesis by (simp add: c)
  next
    case False
    with n have "k' \<notin> fst ` set (push_item k it cs)" by (simp add: keys_push_item)
    with d False show ?thesis by (simp add: c)
  qed
qed

lemma mset_push_item:
  "mset (concat (map snd (push_item k it cs))) = add_mset it (mset (concat (map snd cs)))"
  by (induction cs) auto

lemma grouped_push_item:
  assumes "grouped seen cs"
  shows "grouped (seen @ [it]) (push_item (category_key it) it cs)"
proof -
  let ?k = "category_key it"
  from assms have d: "distinct (map fst cs)"
    and m: "\<And>k. map_of cs k =
        (if k \<in> category_key ` set seen then Some (filter (\<lambda>it. category_key it = k) seen)
         else None)"
    by (simp_all add: grouped_def)
  have old: "(case map_of cs ?k of None \<Rightarrow> [] | Some b \<Rightarrow> b) = filter (\<lambda>x. category_key x = ?k) seen"
  proof (cases "?k \<in> category_key ` set seen")
    case True
    then show ?thesis by (simp add: m)
  next
    case False
    then have "\<forall>x \<in> set seen. category_key x \<noteq> ?k"
      by (metis imageI)
    then have "filter (\<lambda>x. category_key x = ?k) seen = []"
      by (simp add: filter_empty_conv)
    with False show ?thesis by (simp add: m)
  qed
  have "map_of (push_item ?k it cs) k =
      (if k \<in> category_key ` set (seen @ [it])
       then Some (filter (\<lambda>x. category_key x = k) (seen @ [it])) else None)" for k
  proof (cases "k = ?k")
    case True
    then show ?thesis by (simp add: map_of_push_item old)
  next
    case False
    then have "category_key it \<noteq> k" by simp
    with False show ?thesis by (simp add: map_of_push_item m)
  qed
  with distinct_push_item [OF d] show ?thesis by (simp add: grouped_def)
qed

lemma group_items_grouped:
  assumes "grouped seen cs" and "\<forall>it \<in> set menuItems. \<not> inherited (category_key it)"
  shows "\<exists>cs'. group_items cs menuItems = Inr cs' \<and> grouped (seen @ menuItems) cs' \<and>
           mset (concat (map snd cs')) = mset (concat (map snd cs)) + mset menuItems"
  using assms
proof (induction menuItems arbitrary: seen cs)
  case Nil
  then show ?case by simp
next
  case (Cons it its)
  let ?cs = "push_item (category_key it) it cs"
  from Cons.prems(2) have ni: "\<not> inherited (category_key it)"
    and rest: "\<forall>x \<in> set its. \<not> inherited (category_key x)" by simp_all
  from Cons.IH [OF grouped_push_item [OF Cons.prems(1)] rest] obtain cs' where
    c: "group_items ?cs its = Inr cs'" "grouped ((seen @ [it]) @ its) cs'"
       "mset (concat (map snd cs')) = mset (concat (map snd ?cs)) + mset its"
    by blast
  have "group_items cs (it # its) = Inr cs'"
    using ni c(1) by (simp add: Let_def category_key_def)
  with c(2,3) show ?case by (simp add: mset_push_item)
qed

text \<open>The buckets of a grouped list.\<close>

lemma grouped_buckets:
  assumes "grouped seen cs"
  shows "(k, b) \<in> set cs \<longleftrightarrow>
      k \<in> category_key ` set seen \<and> b = filter (\<lambda>it. category_key it = k) seen"
proof -
  from assms have d: "distinct (map fst cs)" by (simp add: grouped_def)
  have "(k, b) \<in> set cs \<longleftrightarrow> map_of cs k = Some b"
    using d by simp
  also have "\<dots> \<longleftrightarrow> k \<in> category_key ` set seen \<and> b = filter (\<lambda>it. category_key it = k) seen"
    using assms by (auto simp: grouped_def)
  finally show ?thesis .
qed

lemma grouped_nonempty:
  assumes "grouped seen cs" and "(k, b) \<in> set cs"
  shows "b \<noteq> []"
proof -
  from grouped_buckets [OF assms(1)] assms(2)
  have "k \<in> category_key ` set seen" "b = filter (\<lambda>it. category_key it = k) seen" by simp_all
  then show ?thesis by (auto simp: filter_empty_conv)
qed

text \<open>The order of the own keys is a rearrangement of the entries.\<close>

lemma set_own_entries: "set (own_entries cs) = set cs"
  by (auto simp: own_entries_def)

lemma render_sections_entries:
  "render_sections cs = (secs, e) \<Longrightarrow>
   (\<forall>s \<in> set secs. (section_category s, section_items s) \<in> set cs) \<and>
   (e = None \<longrightarrow> map (\<lambda>s. (section_category s, section_items s)) secs = cs)"
proof (induction cs arbitrary: secs e)
  case Nil
  then show ?case by simp
next
  case (Cons c cs)
  obtain k b where c: "c = (k, b)" by (cases c)
  show ?case
  proof (cases "displayCategoryItems k b Null")
    case (Inl err)
    with Cons.prems c show ?thesis by auto
  next
    case (Inr sec)
    obtain secs' e' where r: "render_sections cs = (secs', e')" by (cases "render_sections cs")
    from Inr have s: "section_category sec = k" "section_items sec = b"
      by (auto simp: displayCategoryItems_def split: sum.splits)
    from Cons.prems c Inr r have "secs = sec # secs'" "e = e'" by simp_all
    with Cons.IH [OF r] s c show ?thesis by auto
  qed
qed

text \<open>
  For every list of items of which no category is the name of a property that objects
  inherit: \<open>createListings\<close> keeps the list and groups it; the keys of the buckets
  are distinct; the bucket of a key holds exactly the items of that category, in the
  order of the list, and is not empty; every item has the bucket of its category; the
  buckets together hold the items of the list, each as often as the list; the buttons
  are those of the keys of the buckets; and every rendered section is that of a bucket,
  all of them when no exception ends the rendering.
\<close>

lemma createListings_partition:
  assumes "\<forall>it \<in> set menuItems. \<not> inherited (field_string (CATEGORY it))"
  shows "\<exists>p e. createListings menuItems = (p, e) \<and>
    allMenuItems p = menuItems \<and>
    distinct (map fst (menuCategories p)) \<and>
    (\<forall>k b. (k, b) \<in> set (menuCategories p) \<longrightarrow>
       b = filter (\<lambda>it. field_string (CATEGORY it) = k) menuItems \<and> b \<noteq> []) \<and>
    (\<forall>it \<in> set menuItems. \<exists>b. (field_string (CATEGORY it), b) \<in> set (menuCategories p)) \<and>
    mset (concat (map snd (menuCategories p))) = mset menuItems \<and>
    fst ` set (filter_buttons p) = fst ` set (menuCategories p) \<and>
    (\<forall>s \<in> set (sections p). (section_category s, section_items s) \<in> set (menuCategories p)) \<and>
    (e = None \<longrightarrow>
       mset (map (\<lambda>s. (section_category s, section_items s)) (sections p)) = mset (menuCategories p))"
proof -
  have g0: "grouped [] []" by (simp add: grouped_def)
  from assms have ni: "\<forall>it \<in> set menuItems. \<not> inherited (category_key it)"
    by (simp add: category_key_def)
  from group_items_grouped [OF g0 ni] obtain cs where
    cs: "group_items [] menuItems = Inr cs" "grouped menuItems cs"
        "mset (concat (map snd cs)) = mset menuItems"
    by auto
  let ?entries = "filter (\<lambda>e. length (snd e) > 0) (own_entries cs)"
  have ne: "\<forall>e \<in> set cs. snd e \<noteq> []"
    using grouped_nonempty [OF cs(2)] by auto
  then have all: "filter (\<lambda>e. length (snd e) > 0) (own_entries cs) = own_entries cs"
    by (simp add: filter_id_conv set_own_entries)
  obtain secs e where r: "render_sections ?entries = (secs, e)"
    by (cases "render_sections ?entries")
  let ?p = "\<lparr>filter_buttons = createFilterButtons cs, menuCategories = cs,
             allMenuItems = menuItems, sections = secs\<rparr>"
  have cl: "createListings menuItems = (?p, e)"
    by (simp only: createListings_def cs(1) sum.case r prod.case)
  from cs(2) have d: "distinct (map fst cs)" by (simp add: grouped_def)
  have b: "\<forall>k b. (k, b) \<in> set cs \<longrightarrow>
       b = filter (\<lambda>it. field_string (CATEGORY it) = k) menuItems \<and> b \<noteq> []"
    using grouped_buckets [OF cs(2)] grouped_nonempty [OF cs(2)]
    by (auto simp: category_key_def)
  have i: "\<forall>it \<in> set menuItems. \<exists>b. (field_string (CATEGORY it), b) \<in> set cs"
    using grouped_buckets [OF cs(2)] by (auto simp: category_key_def)
  have "createFilterButtons cs = map (\<lambda>e. (fst e, formatCategoryName (fst e))) (own_entries cs)"
    by (simp only: createFilterButtons_def all)
  then have "fst ` set (createFilterButtons cs) = fst ` set (own_entries cs)"
    by (simp add: image_image)
  then have bt: "fst ` set (createFilterButtons cs) = fst ` set cs"
    by (simp only: set_own_entries)
  from render_sections_entries [OF r]
  have "\<forall>s \<in> set secs. (section_category s, section_items s) \<in> set ?entries"
    and "e = None \<longrightarrow> map (\<lambda>s. (section_category s, section_items s)) secs = ?entries"
    by blast+
  then have s1: "\<forall>s \<in> set secs. (section_category s, section_items s) \<in> set cs"
    and s2: "e = None \<longrightarrow> map (\<lambda>s. (section_category s, section_items s)) secs = own_entries cs"
    unfolding all by (simp_all only: set_own_entries)
  have perm: "mset (own_entries cs) = mset cs"
    by (simp add: own_entries_def union_commute)
  from s2 perm have s3: "e = None \<longrightarrow>
       mset (map (\<lambda>s. (section_category s, section_items s)) secs) = mset cs"
    by (metis mset_map)
  show ?thesis
    using cl d b i cs(3) bt s1 s3 by (intro exI [of _ ?p] exI [of _ e]) simp
qed

lemma createListings_partition_example:
  "\<exists>p e. createListings example_menu = (p, e) \<and>
     allMenuItems p = example_menu \<and>
     menuCategories p =
       [(js ''BURGERSANDWICH'', [example_burger]),
        (js ''BEVERAGE'', [example_cola, example_cola]),
        (js ''DESSERTSHAKE'', [example_shake])] \<and>
     mset (concat (map snd (menuCategories p))) = mset example_menu \<and>
     fst ` set (filter_buttons p) = {js ''BURGERSANDWICH'', js ''BEVERAGE'', js ''DESSERTSHAKE''}"
proof -
  have k: "field_string (CATEGORY example_burger) = js ''BURGERSANDWICH''"
    "field_string (CATEGORY example_cola) = js ''BEVERAGE''"
    "field_string (CATEGORY example_shake) = js ''DESSERTSHAKE''"
    by (simp_all add: example_burger_def example_cola_def example_shake_def)
  have n: "\<not> inherited (js ''BURGERSANDWICH'')" "\<not> inherited (js ''BEVERAGE'')"
    "\<not> inherited (js ''DESSERTSHAKE'')"
    by (simp_all add: inherited_def inherited_names_def js_def)
  have d: "js ''BURGERSANDWICH'' \<noteq> js ''BEVERAGE''" "js ''BURGERSANDWICH'' \<noteq> js ''DESSERTSHAKE''"
    "js ''BEVERAGE'' \<noteq> js ''DESSERTSHAKE''"
    by (simp_all add: js_def)
  have h: "\<forall>it \<in> set example_menu. \<not> inherited (field_string (CATEGORY it))"
    by (simp add: example_menu_def k n)
  have g: "group_items [] example_menu =
      Inr [(js ''BURGERSANDWICH'', [example_burger]),
           (js ''BEVERAGE'', [example_cola, example_cola]),
           (js ''DESSERTSHAKE'', [example_shake])]"
    by (simp add: example_menu_def Let_def k n d d [symmetric])
  from createListings_partition [OF h] obtain p e where
    p: "createListings example_menu = (p, e)" "allMenuItems p = example_menu"
       "mset (concat (map snd (menuCategories p))) = mset example_menu"
       "fst ` set (filter_buttons p) = fst ` set (menuCategories p)"
    by blast
  from p(1) g have m: "menuCategories p =
       [(js ''BURGERSANDWICH'', [example_burger]),
        (js ''BEVERAGE'', [example_cola, example_cola]),
        (js ''DESSERTSHAKE'', [example_shake])]"
    by (auto simp: createListings_def split: prod.splits)
  from p(4) have "fst ` set (filter_buttons p) =
      {js ''BURGERSANDWICH'', js ''BEVERAGE'', js ''DESSERTSHAKE''}"
    unfolding m by simp
  with p(1,2,3) m show ?thesis by blast
qed

text \<open>
  C10. The grouping misses the categories that name a property which every object
  inherits from \<open>Object.prototype\<close>, such as "constructor". For an item of such a
  category the read \<open>categories[category]\<close> gives the inherited function, which is
  truthy: no bucket is made, \<open>push\<close> is not a function, and \<open>createListings\<close> throws
  a \<open>TypeError\<close> before anything is stored or listed. The item is in no bucket, and
  neither are the items before it.
\<close>

theorem createListings_inherited_category:
  "createListings [example_burger, example_cola\<lparr>CATEGORY := Str (js ''constructor'')\<rparr>] =
     (empty_page, Some TypeError)"
proof -
  have "field_string (CATEGORY example_burger) = js ''BURGERSANDWICH''"
    by (simp add: example_burger_def)
  moreover have "\<not> inherited (js ''BURGERSANDWICH'')" "inherited (js ''constructor'')"
    "js ''constructor'' \<noteq> js ''BURGERSANDWICH''"
    by (simp_all add: inherited_def inherited_names_def js_def)
  ultimately show ?thesis
    by (simp add: createListings_def Let_def)
qed

end
